theory Spec2Isabelle
  imports Main "HOL-Library.Sublist" "HOL-Library.AList"
begin

section \<open>Values and exceptions of the Python run time\<close>

text \<open>
  A Python \<open>str\<close> is modelled as a \<open>string\<close>: one \<open>char\<close> stands for one code point
  (code points above 255 are outside the model). Values that come out of \<open>json.loads\<close>
  or out of an HTTP response body are \<open>json\<close> values. A Python \<open>dict\<close> is an association
  list in insertion order with distinct keys; a float is kept as the text it was read from.
\<close>

datatype json =
    JNull
  | JBool bool
  | JInt int
  | JFloat string
  | JString string
  | JArray "json list"
  | JObject "(string \<times> json) list"

text \<open>
  Exceptions. \<open>ValueError\<close> and \<open>RuntimeError\<close> are raised by the repository with the
  message they carry; \<open>JSONDecodeError\<close> is raised by \<open>json.loads\<close>; \<open>KeyError\<close> carries
  the missing key; \<open>TypeError\<close> and \<open>AttributeError\<close> are raised by the interpreter on an
  operation the value does not support; \<open>ValidationError\<close> is raised by a pydantic model;
  \<open>LibraryError\<close> is any other exception raised inside a library (HTTP transport,
  reasoning backend), with its \<open>str()\<close>.
\<close>

datatype py_exn =
    ValueError string
  | RuntimeError string
  | JSONDecodeError string
  | KeyError string
  | TypeError
  | AttributeError
  | ValidationError
  | LibraryError string

datatype backend = Gemini | Anthropic

text \<open>
  Observable effects, in the order in which they happen: a prompt sent to a reasoning
  backend (for Anthropic with its \<open>max_tokens\<close>), a JSON-RPC request posted on a session
  to an endpoint, and the opening and closing of an HTTP session.
\<close>

datatype event =
    GenerateContent string
  | MessagesCreate nat string
  | Post nat string json
  | SessionOpen nat
  | SessionClose nat

type_synonym trace = "event list"

text \<open>
  Everything outside the repository is a field of \<open>env\<close>. Each external call sees the
  trace of all effects so far, so a backend or a provider may answer the same request
  differently at different times.
  \<^item> \<open>generate_content\<close>: \<open>gemini_model.generate_content_async(prompt)\<close> followed by
    \<open>response.text\<close>;
  \<^item> \<open>messages_create\<close>: \<open>anthropic_client.messages.create(...)\<close> followed by
    \<open>response.content[0].text\<close>;
  \<^item> \<open>http_post\<close>: \<open>session.post(endpoint, json=body)\<close>, \<open>raise_for_status()\<close> and
    \<open>response.json()\<close>;
  \<^item> \<open>session_close\<close>: \<open>session.close()\<close>, \<open>None\<close> when it returns normally;
  \<^item> \<open>json_loads\<close>: \<open>json.loads\<close>;
  \<^item> \<open>interp_text\<close>: \<open>str(e)\<close> of an exception whose wording is the interpreter's or
    pydantic's;
  \<^item> \<open>str_other\<close>: \<open>str(v)\<close> of a value that is not a \<open>str\<close>;
  \<^item> \<open>coerce_content\<close>, \<open>coerce_text\<close>, \<open>coerce_schema\<close>: pydantic's validation of a field
    value that does not already have the declared type (it may coerce or reject,
    depending on the pydantic version).
\<close>

record env =
  generate_content :: "trace \<Rightarrow> string \<Rightarrow> py_exn + string"
  messages_create :: "trace \<Rightarrow> nat \<Rightarrow> string \<Rightarrow> py_exn + string"
  http_post :: "trace \<Rightarrow> nat \<Rightarrow> string \<Rightarrow> json \<Rightarrow> py_exn + json"
  session_close :: "trace \<Rightarrow> nat \<Rightarrow> py_exn option"
  json_loads :: "string \<Rightarrow> py_exn + json"
  interp_text :: "py_exn \<Rightarrow> string"
  str_other :: "json \<Rightarrow> string"
  coerce_content :: "json \<Rightarrow> (string \<times> json) list list option"
  coerce_text :: "json \<Rightarrow> string option"
  coerce_schema :: "json \<Rightarrow> (string \<times> json) list option"

subsection \<open>Built-in operations on values\<close>

text \<open>Sequencing of two steps of which the first may raise.\<close>

definition bind_exn :: "'e + 'a \<Rightarrow> ('a \<Rightarrow> 'e + 'b) \<Rightarrow> 'e + 'b" where
  "bind_exn m f = (case m of Inl e \<Rightarrow> Inl e | Inr x \<Rightarrow> f x)"

text \<open>\<open>str(e)\<close> of an exception.\<close>

fun str_exn :: "env \<Rightarrow> py_exn \<Rightarrow> string" where
  "str_exn E (ValueError m) = m"
| "str_exn E (RuntimeError m) = m"
| "str_exn E (JSONDecodeError m) = m"
| "str_exn E (LibraryError m) = m"
| "str_exn E e = interp_text E e"

text \<open>\<open>str(v)\<close>, as an f-string applies it: a \<open>str\<close> is rendered as itself.\<close>

fun py_str :: "env \<Rightarrow> json \<Rightarrow> string" where
  "py_str E (JString s) = s"
| "py_str E v = str_other E v"

text \<open>\<open>str(n)\<close> of a non-negative integer: its decimal digits.\<close>

fun str_nat :: "nat \<Rightarrow> string" where
  "str_nat n =
     (if n < 10 then [char_of (48 + n)]
      else str_nat (n div 10) @ [char_of (48 + n mod 10)])"

declare str_nat.simps [simp del]

text \<open>\<open>sep.join(xs)\<close>.\<close>

fun join :: "string \<Rightarrow> string list \<Rightarrow> string" where
  "join sep [] = []"
| "join sep [x] = x"
| "join sep (x # y # ys) = x @ sep @ join sep (y # ys)"

text \<open>\<open>v.get(key, default)\<close>: only a dict has the method.\<close>

fun py_get :: "json \<Rightarrow> string \<Rightarrow> json \<Rightarrow> py_exn + json" where
  "py_get (JObject kvs) key dflt =
     Inr (case map_of kvs key of Some v \<Rightarrow> v | None \<Rightarrow> dflt)"
| "py_get v key dflt = Inl AttributeError"

text \<open>\<open>v[key]\<close> with a \<open>str\<close> key.\<close>

fun py_getitem :: "json \<Rightarrow> string \<Rightarrow> py_exn + json" where
  "py_getitem (JObject kvs) key =
     (case map_of kvs key of Some v \<Rightarrow> Inr v | None \<Rightarrow> Inl (KeyError key))"
| "py_getitem v key = Inl TypeError"

text \<open>\<open>key in v\<close> with a \<open>str\<close> key.\<close>

fun py_contains :: "string \<Rightarrow> json \<Rightarrow> py_exn + bool" where
  "py_contains key (JObject kvs) = Inr (key \<in> set (map fst kvs))"
| "py_contains key (JArray xs) = Inr (JString key \<in> set xs)"
| "py_contains key (JString s) = Inr (sublist key s)"
| "py_contains key v = Inl TypeError"

text \<open>The items a \<open>for\<close> loop over \<open>v\<close> visits.\<close>

fun py_iter :: "json \<Rightarrow> py_exn + json list" where
  "py_iter (JArray xs) = Inr xs"
| "py_iter (JObject kvs) = Inr (map (\<lambda>kv. JString (fst kv)) kvs)"
| "py_iter (JString s) = Inr (map (\<lambda>c. JString [c]) s)"
| "py_iter v = Inl TypeError"

text \<open>
  \<open>str.isspace\<close> on one code point below 256 and \<open>str.strip()\<close>.
\<close>

definition isspace :: "char \<Rightarrow> bool" where
  "isspace c \<longleftrightarrow>
     (of_char c :: nat) \<in> {9, 10, 11, 12, 13, 28, 29, 30, 31, 32, 133, 160}"

definition lstrip :: "string \<Rightarrow> string" where
  "lstrip s = dropWhile isspace s"

definition rstrip :: "string \<Rightarrow> string" where
  "rstrip s = rev (dropWhile isspace (rev s))"

definition strip :: "string \<Rightarrow> string" where
  "strip s = rstrip (lstrip s)"

section \<open>mcp\_client.py\<close>

record MCPToolResult =
  content :: "(string \<times> json) list list"
  error :: "string option"

record MCPClient =
  base_url :: string
  mcp_endpoint :: string
  session :: "nat option"

text \<open>
  Construction of the pydantic model \<open>MCPToolResult(content=c, error=e)\<close> with the
  fields \<open>content: List[Dict[str, Any]]\<close> and \<open>error: Optional[str] = None\<close>. A value of
  the declared type is taken as it is; any other value is left to pydantic.
\<close>

fun as_dict :: "json \<Rightarrow> (string \<times> json) list option" where
  "as_dict (JObject kvs) = Some kvs"
| "as_dict v = None"

fun as_dicts :: "json list \<Rightarrow> (string \<times> json) list list option" where
  "as_dicts [] = Some []"
| "as_dicts (x # xs) =
     (case as_dict x of None \<Rightarrow> None
      | Some d \<Rightarrow> (case as_dicts xs of None \<Rightarrow> None | Some ds \<Rightarrow> Some (d # ds)))"

definition validate_content :: "env \<Rightarrow> json \<Rightarrow> (string \<times> json) list list option" where
  "validate_content E c =
     (case c of
        JArray xs \<Rightarrow> (case as_dicts xs of Some ds \<Rightarrow> Some ds | None \<Rightarrow> coerce_content E c)
      | _ \<Rightarrow> coerce_content E c)"

definition validate_error :: "env \<Rightarrow> json \<Rightarrow> string option option" where
  "validate_error E e =
     (case e of
        JNull \<Rightarrow> Some None
      | JString s \<Rightarrow> Some (Some s)
      | _ \<Rightarrow> map_option Some (coerce_text E e))"

definition MCPToolResult_init :: "env \<Rightarrow> json \<Rightarrow> json \<Rightarrow> py_exn + MCPToolResult" where
  "MCPToolResult_init E c e =
     (case validate_content E c of
        None \<Rightarrow> Inl ValidationError
      | Some ds \<Rightarrow>
          (case validate_error E e of
             None \<Rightarrow> Inl ValidationError
           | Some eo \<Rightarrow> Inr \<lparr>content = ds, error = eo\<rparr>))"

subsection \<open>MCPClient\<close>

definition not_initialized :: string where
  "not_initialized = ''Client not initialized. Use async context manager.''"

definition call_request :: "json \<Rightarrow> json \<Rightarrow> json" where
  "call_request tool_name arguments =
     JObject [(''jsonrpc'', JString ''2.0''), (''id'', JInt 1),
              (''method'', JString ''tools/call''),
              (''params'', JObject [(''name'', tool_name), (''arguments'', arguments)])]"

text \<open>
  The body of the \<open>try\<close> of \<open>call_tool\<close>, from the outcome of the HTTP exchange on.
\<close>

definition call_tool_try :: "env \<Rightarrow> py_exn + json \<Rightarrow> py_exn + MCPToolResult" where
  "call_tool_try E response =
     bind_exn response (\<lambda>result.
     bind_exn (py_contains ''error'' result) (\<lambda>has_error.
       if has_error then
         bind_exn (py_getitem result ''error'') (\<lambda>err.
         bind_exn (py_get err ''message'' (JString ''Unknown error'')) (\<lambda>msg.
           MCPToolResult_init E (JArray []) msg))
       else
         bind_exn (py_get result ''result'' (JObject [])) (\<lambda>res.
         bind_exn (py_get res ''content'' (JArray [])) (\<lambda>c.
           MCPToolResult_init E c JNull))))"

definition call_tool ::
  "env \<Rightarrow> MCPClient \<Rightarrow> json \<Rightarrow> json \<Rightarrow> trace \<Rightarrow> (py_exn + MCPToolResult) \<times> trace" where
  "call_tool E client tool_name arguments tr =
     (case session client of
        None \<Rightarrow> (Inl (RuntimeError not_initialized), tr)
      | Some sid \<Rightarrow>
          (let request_data = call_request tool_name arguments;
               response = http_post E tr sid (mcp_endpoint client) request_data;
               tr' = tr @ [Post sid (mcp_endpoint client) request_data]
           in case call_tool_try E response of
                Inr r \<Rightarrow> (Inr r, tr')
              | Inl e \<Rightarrow> (Inr \<lparr>content = [], error = Some (str_exn E e)\<rparr>, tr')))"

definition list_request :: json where
  "list_request =
     JObject [(''jsonrpc'', JString ''2.0''), (''id'', JInt 1),
              (''method'', JString ''tools/list'')]"

text \<open>
  The body of the \<open>try\<close> of \<open>list_tools\<close>. In the error branch the log line formats
  \<open>result['error']\<close>; when that raises, the handler returns the empty list as well.
\<close>

definition list_tools_try :: "py_exn + json \<Rightarrow> py_exn + json" where
  "list_tools_try response =
     bind_exn response (\<lambda>result.
     bind_exn (py_contains ''error'' result) (\<lambda>has_error.
       if has_error then Inr (JArray [])
       else
         bind_exn (py_get result ''result'' (JObject [])) (\<lambda>res.
           py_get res ''tools'' (JArray []))))"

definition list_tools :: "env \<Rightarrow> MCPClient \<Rightarrow> trace \<Rightarrow> (py_exn + json) \<times> trace" where
  "list_tools E client tr =
     (case session client of
        None \<Rightarrow> (Inl (RuntimeError not_initialized), tr)
      | Some sid \<Rightarrow>
          (let response = http_post E tr sid (mcp_endpoint client) list_request;
               tr' = tr @ [Post sid (mcp_endpoint client) list_request]
           in case list_tools_try response of
                Inr tools \<Rightarrow> (Inr tools, tr')
              | Inl e \<Rightarrow> (Inr (JArray []), tr')))"

text \<open>\<open>MCPClient(base_url)\<close> and the context manager methods.\<close>

definition MCPClient_init :: "string \<Rightarrow> MCPClient" where
  "MCPClient_init url =
     (let b = rev (dropWhile (\<lambda>c. c = CHR ''/'') (rev url))
      in \<lparr>base_url = b, mcp_endpoint = b @ ''/mcp'', session = None\<rparr>)"

definition aenter :: "MCPClient \<Rightarrow> trace \<Rightarrow> MCPClient \<times> trace" where
  "aenter client tr = (client\<lparr>session := Some (length tr)\<rparr>, tr @ [SessionOpen (length tr)])"

definition aexit :: "env \<Rightarrow> MCPClient \<Rightarrow> trace \<Rightarrow> py_exn option \<times> trace" where
  "aexit E client tr =
     (case session client of
        None \<Rightarrow> (None, tr)
      | Some sid \<Rightarrow> (session_close E tr sid, tr @ [SessionClose sid]))"

subsection \<open>MCPConnectorManager\<close>

text \<open>\<open>MCPConnectorManager.connectors\<close>: a dict, in insertion order.\<close>

type_synonym manager = "(string \<times> MCPClient) list"

definition add_connector ::
  "string \<Rightarrow> string \<Rightarrow> manager \<Rightarrow> trace \<Rightarrow> MCPClient \<times> manager \<times> trace" where
  "add_connector name url mgr tr =
     (let (client, tr') = aenter (MCPClient_init url) tr
      in (client, AList.update name client mgr, tr'))"

text \<open>
  \<open>remove_connector\<close> returns the exception it raised, if any, the registry it leaves and
  the trace. An exception of \<open>__aexit__\<close> leaves the entry in the registry.
\<close>

definition remove_connector ::
  "env \<Rightarrow> string \<Rightarrow> manager \<Rightarrow> trace \<Rightarrow> py_exn option \<times> manager \<times> trace" where
  "remove_connector E name mgr tr =
     (case map_of mgr name of
        Some client \<Rightarrow>
          (case aexit E client tr of
             (Some e, tr') \<Rightarrow> (Some e, mgr, tr')
           | (None, tr') \<Rightarrow> (None, AList.delete name mgr, tr'))
      | None \<Rightarrow> (None, mgr, tr))"

text \<open>
  \<open>connector_name not in self.connectors\<close>: a list or a dict cannot be hashed; a value
  that is not a \<open>str\<close> equals no key.
\<close>

fun unhashable :: "json \<Rightarrow> bool" where
  "unhashable (JArray xs) = True"
| "unhashable (JObject kvs) = True"
| "unhashable v = False"

fun lookup_connector :: "manager \<Rightarrow> json \<Rightarrow> MCPClient option" where
  "lookup_connector mgr (JString n) = map_of mgr n"
| "lookup_connector mgr v = None"

definition not_found :: "env \<Rightarrow> json \<Rightarrow> string" where
  "not_found E connector_name =
     ''Connector '' @ [CHR 0x27] @ py_str E connector_name @ [CHR 0x27] @ '' not found''"

definition call_tool_on_connector ::
  "env \<Rightarrow> manager \<Rightarrow> json \<Rightarrow> json \<Rightarrow> json \<Rightarrow> trace \<Rightarrow> (py_exn + MCPToolResult) \<times> trace" where
  "call_tool_on_connector E mgr connector_name tool_name arguments tr =
     (if unhashable connector_name then (Inl TypeError, tr)
      else case lookup_connector mgr connector_name of
             None \<Rightarrow> (Inl (ValueError (not_found E connector_name)), tr)
           | Some client \<Rightarrow> call_tool E client tool_name arguments tr)"

fun list_all_tools ::
  "env \<Rightarrow> manager \<Rightarrow> trace \<Rightarrow> (py_exn + (string \<times> json) list) \<times> trace" where
  "list_all_tools E [] tr = (Inr [], tr)"
| "list_all_tools E ((name, client) # rest) tr =
     (case list_tools E client tr of
        (Inl e, tr') \<Rightarrow> (Inl e, tr')
      | (Inr tools, tr') \<Rightarrow>
          (case list_all_tools E rest tr' of
             (Inl e, tr'') \<Rightarrow> (Inl e, tr'')
           | (Inr result, tr'') \<Rightarrow> (Inr ((name, tools) # result), tr'')))"

section \<open>ai\_agent\_debug.py\<close>

text \<open>
  The fields of a \<open>ToolCall\<close> are whatever the parsed response holds under the four
  keys: the dataclass does not check the annotated types.
\<close>

record ToolCall =
  tc_connector_name :: json
  tc_tool_name :: json
  tc_arguments :: json
  tc_reasoning :: json

record AITool =
  ai_name :: string
  ai_description :: string
  ai_connector_name :: string
  ai_schema :: "(string \<times> json) list"

text \<open>One entry of the list \<open>_execute_tool_calls\<close> returns.\<close>

record outcome =
  out_tool_call :: ToolCall
  out_success :: bool
  out_result :: "MCPToolResult option"
  out_error :: "string option"

text \<open>The dict \<open>process_request\<close> returns.\<close>

record RequestResult =
  res_success :: bool
  res_reasoning :: json
  res_tool_calls :: "ToolCall list"
  res_results :: "outcome list"
  res_summary :: string

definition nl :: string where
  "nl = [CHR 0x0A]"

text \<open>
  \<open>AIAgentDebug.__init__\<close>: the backend later calls use. Every method tests
  \<open>self.gemini_model\<close> first, so Gemini is used when both keys are given; with no key
  the constructor raises.
\<close>

definition no_provider :: string where
  "no_provider = ''At least one AI provider (Gemini or Anthropic) must be configured''"

definition truthy_key :: "string option \<Rightarrow> bool" where
  "truthy_key k = (case k of None \<Rightarrow> False | Some s \<Rightarrow> s \<noteq> [])"

definition AIAgentDebug_init :: "string option \<Rightarrow> string option \<Rightarrow> py_exn + backend" where
  "AIAgentDebug_init gemini_api_key anthropic_api_key =
     (if truthy_key gemini_api_key then Inr Gemini
      else if truthy_key anthropic_api_key then Inr Anthropic
      else Inl (ValueError no_provider))"

text \<open>
  One call of the configured backend: the text of the response or the exception, and
  the trace with the call appended.
\<close>

definition complete ::
  "env \<Rightarrow> backend \<Rightarrow> nat \<Rightarrow> string \<Rightarrow> trace \<Rightarrow> (py_exn + string) \<times> trace" where
  "complete E b max_tokens prompt tr =
     (case b of
        Gemini \<Rightarrow> (generate_content E tr prompt, tr @ [GenerateContent prompt])
      | Anthropic \<Rightarrow>
          (messages_create E tr max_tokens prompt, tr @ [MessagesCreate max_tokens prompt]))"

subsection \<open>\_get\_available\_tools\<close>

fun mapM_exn :: "('a \<Rightarrow> 'e + 'b) \<Rightarrow> 'a list \<Rightarrow> 'e + 'b list" where
  "mapM_exn f [] = Inr []"
| "mapM_exn f (x # xs) =
     (case f x of
        Inl e \<Rightarrow> Inl e
      | Inr y \<Rightarrow> (case mapM_exn f xs of Inl e \<Rightarrow> Inl e | Inr ys \<Rightarrow> Inr (y # ys)))"

definition validate_str :: "env \<Rightarrow> json \<Rightarrow> string option" where
  "validate_str E v = (case v of JString s \<Rightarrow> Some s | _ \<Rightarrow> coerce_text E v)"

definition validate_schema :: "env \<Rightarrow> json \<Rightarrow> (string \<times> json) list option" where
  "validate_schema E v = (case v of JObject kvs \<Rightarrow> Some kvs | _ \<Rightarrow> coerce_schema E v)"

definition AITool_init :: "env \<Rightarrow> json \<Rightarrow> json \<Rightarrow> string \<Rightarrow> json \<Rightarrow> py_exn + AITool" where
  "AITool_init E n d c s =
     (case (validate_str E n, validate_str E d, validate_schema E s) of
        (Some n', Some d', Some s') \<Rightarrow>
          Inr \<lparr>ai_name = n', ai_description = d', ai_connector_name = c, ai_schema = s'\<rparr>
      | _ \<Rightarrow> Inl ValidationError)"

definition make_tool :: "env \<Rightarrow> string \<Rightarrow> json \<Rightarrow> py_exn + AITool" where
  "make_tool E c tool =
     bind_exn (py_get tool ''name'' (JString [])) (\<lambda>n.
     bind_exn (py_get tool ''description'' (JString [])) (\<lambda>d.
     bind_exn (py_get tool ''inputSchema'' (JObject [])) (\<lambda>s.
       AITool_init E n d c s)))"

definition connector_tools :: "env \<Rightarrow> string \<times> json \<Rightarrow> py_exn + AITool list" where
  "connector_tools E item =
     bind_exn (py_iter (snd item)) (\<lambda>tools. mapM_exn (make_tool E (fst item)) tools)"

definition get_available_tools ::
  "env \<Rightarrow> manager \<Rightarrow> trace \<Rightarrow> (py_exn + AITool list) \<times> trace" where
  "get_available_tools E mgr tr =
     (case list_all_tools E mgr tr of
        (Inl e, tr') \<Rightarrow> (Inl e, tr')
      | (Inr all_tools, tr') \<Rightarrow>
          (bind_exn (mapM_exn (connector_tools E) all_tools) (\<lambda>tss. Inr (concat tss)), tr'))"

subsection \<open>\_create\_tool\_selection\_prompt\<close>

definition tool_line :: "AITool \<Rightarrow> string" where
  "tool_line tool =
     ''- '' @ ai_name tool @ '' ('' @ ai_connector_name tool @ ''): '' @ ai_description tool"

definition create_tool_selection_prompt :: "string \<Rightarrow> AITool list \<Rightarrow> string" where
  \<open>create_tool_selection_prompt user_query available_tools =
     (let tools_description = join nl (map tool_line available_tools)
      in nl @ join nl
        [''You are an AI assistant that can use various tools to help users. Based on the user'' @ [CHR 0x27] @ ''s request, determine which tools to use and how to use them.'',
         '''',
         ''Available tools:'',
         tools_description,
         '''',
         ''User request: '' @ user_query,
         '''',
         ''Please analyze the request and determine:'',
         ''1. Which tools are needed'',
         ''2. The order to call them'',
         ''3. The arguments for each tool call'',
         ''4. Your reasoning for each decision'',
         '''',
         ''Respond in the following JSON format:'',
         ''{'',
         ''    "reasoning": "Your overall reasoning for the approach",'',
         ''    "tool_calls": ['',
         ''        {'',
         ''            "connector_name": "name of the connector",'',
         ''            "tool_name": "name of the tool",'',
         ''            "arguments": {"param1": "value1", "param2": "value2"},'',
         ''            "reasoning": "Why this tool call is needed"'',
         ''        }'',
         ''    ]'',
         ''}'',
         '''',
         ''Only include tools that are actually needed for the request. If no tools are needed, return an empty tool_calls array.'',
         '''',
         ''IMPORTANT: Respond ONLY with valid JSON. Do not include any other text before or after the JSON.''] @ nl)\<close>

subsection \<open>\_select\_tools\<close>

text \<open>The cleaning of the response, lines 146 to 153.\<close>

definition clean_response :: "string \<Rightarrow> string" where
  "clean_response content0 =
     (let c1 = strip content0;
          c2 = (if prefix ''```json'' c1 then drop 7 c1 else c1);
          c3 = (if suffix ''```'' c2 then take (length c2 - 3) c2 else c2)
      in strip c3)"

definition parse_tool_call :: "json \<Rightarrow> py_exn + ToolCall" where
  "parse_tool_call call_data =
     bind_exn (py_getitem call_data ''connector_name'') (\<lambda>c.
     bind_exn (py_getitem call_data ''tool_name'') (\<lambda>t.
     bind_exn (py_getitem call_data ''arguments'') (\<lambda>a.
     bind_exn (py_getitem call_data ''reasoning'') (\<lambda>r.
       Inr \<lparr>tc_connector_name = c, tc_tool_name = t, tc_arguments = a,
            tc_reasoning = r\<rparr>))))"

text \<open>What follows \<open>json.loads\<close> inside the inner \<open>try\<close>, lines 162 to 174.\<close>

definition parse_selection :: "json \<Rightarrow> py_exn + json \<times> ToolCall list" where
  "parse_selection result0 =
     bind_exn (py_get result0 ''reasoning'' (JString [])) (\<lambda>r.
     bind_exn (py_get result0 ''tool_calls'' (JArray [])) (\<lambda>tcs.
     bind_exn (py_iter tcs) (\<lambda>entries.
     bind_exn (mapM_exn parse_tool_call entries) (\<lambda>calls.
       Inr (r, calls)))))"

definition selection_error :: "env \<Rightarrow> py_exn \<Rightarrow> json \<times> ToolCall list" where
  "selection_error E e = (JString (''Error in tool selection: '' @ str_exn E e), [])"

definition parse_failure :: "json \<times> ToolCall list" where
  "parse_failure = (JString ''Failed to parse tool selection'', [])"

text \<open>
  The two \<open>try\<close> blocks, from the outcome of the backend call on: the inner handler
  takes a \<open>JSONDecodeError\<close>, the outer one every other exception.
\<close>

definition extract_intent :: "env \<Rightarrow> py_exn + string \<Rightarrow> json \<times> ToolCall list" where
  "extract_intent E response =
     (case response of
        Inl e \<Rightarrow> selection_error E e
      | Inr content0 \<Rightarrow>
          (case json_loads E (clean_response content0) of
             Inl (JSONDecodeError m) \<Rightarrow> parse_failure
           | Inl e \<Rightarrow> selection_error E e
           | Inr result0 \<Rightarrow>
               (case parse_selection result0 of
                  Inl e \<Rightarrow> selection_error E e
                | Inr rc \<Rightarrow> rc)))"

definition select_tools ::
  "env \<Rightarrow> backend \<Rightarrow> manager \<Rightarrow> string \<Rightarrow> trace \<Rightarrow>
     (py_exn + json \<times> ToolCall list) \<times> trace" where
  "select_tools E b mgr user_query tr =
     (case get_available_tools E mgr tr of
        (Inl e, tr1) \<Rightarrow> (Inl e, tr1)
      | (Inr available_tools, tr1) \<Rightarrow>
          (let prompt = create_tool_selection_prompt user_query available_tools;
               (response, tr2) = complete E b 2000 prompt tr1
           in (Inr (extract_intent E response), tr2)))"

subsection \<open>\_execute\_tool\_calls\<close>

text \<open>One pass through the body of the loop.\<close>

definition execute_one :: "env \<Rightarrow> manager \<Rightarrow> ToolCall \<Rightarrow> trace \<Rightarrow> outcome \<times> trace" where
  "execute_one E mgr tc tr =
     (case call_tool_on_connector E mgr
             (tc_connector_name tc) (tc_tool_name tc) (tc_arguments tc) tr of
        (Inr r, tr') \<Rightarrow>
          (\<lparr>out_tool_call = tc, out_success = (error r = None), out_result = Some r,
            out_error = error r\<rparr>, tr')
      | (Inl e, tr') \<Rightarrow>
          (\<lparr>out_tool_call = tc, out_success = False, out_result = None,
            out_error = Some (str_exn E e)\<rparr>, tr'))"

fun execute_tool_calls ::
  "env \<Rightarrow> manager \<Rightarrow> ToolCall list \<Rightarrow> trace \<Rightarrow> outcome list \<times> trace" where
  "execute_tool_calls E mgr [] tr = ([], tr)"
| "execute_tool_calls E mgr (tc # tcs) tr =
     (let (r, tr1) = execute_one E mgr tc tr;
          (rs, tr2) = execute_tool_calls E mgr tcs tr1
      in (r # rs, tr2))"

text \<open>
  What one pass of the loop puts on the wire: \<open>call_tool_on_connector\<close> reaches
  \<open>MCPClient.call_tool\<close> only for a name that is a key of the registry, and \<open>call_tool\<close>
  posts its one request only when the session is open.
\<close>

definition posted :: "manager \<Rightarrow> ToolCall \<Rightarrow> trace" where
  "posted mgr tc =
     (if unhashable (tc_connector_name tc) then []
      else case lookup_connector mgr (tc_connector_name tc) of
             None \<Rightarrow> []
           | Some client \<Rightarrow>
               (case session client of
                  None \<Rightarrow> []
                | Some sid \<Rightarrow>
                    [Post sid (mcp_endpoint client)
                       (call_request (tc_tool_name tc) (tc_arguments tc))]))"

subsection \<open>\_create\_summary\_prompt\<close>

text \<open>
  The line of the prompt for the result at index \<open>i\<close>. Reading \<open>.content\<close> of a result
  that is \<open>None\<close> raises; the text of a block is \<open>content[0].get("text", ...)\<close>.
\<close>

definition tool_label :: "env \<Rightarrow> nat \<Rightarrow> outcome \<Rightarrow> string" where
  "tool_label E i r =
     ''Tool '' @ str_nat (i + 1) @ '': '' @ py_str E (tc_tool_name (out_tool_call r))"

definition block_text :: "(string \<times> json) list \<Rightarrow> json" where
  "block_text b = (case map_of b ''text'' of Some v \<Rightarrow> v | None \<Rightarrow> JString ''No text content'')"

definition result_line :: "env \<Rightarrow> nat \<Rightarrow> outcome \<Rightarrow> py_exn + string" where
  "result_line E i r =
     (if out_success r then
        (case out_result r of
           None \<Rightarrow> Inl AttributeError
         | Some res \<Rightarrow>
             (case content res of
                b # bs \<Rightarrow>
                  Inr (tool_label E i r @ '' - Success'' @ nl @ ''Result: '' @
                       py_str E (block_text b))
              | [] \<Rightarrow> Inr (tool_label E i r @ '' - Success (no content)'')))
      else
        Inr (tool_label E i r @ '' - Failed'' @ nl @ ''Error: '' @
             (case out_error r of Some e \<Rightarrow> e | None \<Rightarrow> ''None'')))"

fun result_lines :: "env \<Rightarrow> nat \<Rightarrow> outcome list \<Rightarrow> py_exn + string list" where
  "result_lines E i [] = Inr []"
| "result_lines E i (r # rs) =
     (case result_line E i r of
        Inl e \<Rightarrow> Inl e
      | Inr l \<Rightarrow> (case result_lines E (Suc i) rs of Inl e \<Rightarrow> Inl e | Inr ls \<Rightarrow> Inr (l # ls)))"

definition summary_text :: "env \<Rightarrow> string \<Rightarrow> json \<Rightarrow> string list \<Rightarrow> string" where
  \<open>summary_text E user_query reasoning results_summary =
     nl @ join nl
        [''You are an AI assistant that has executed some tools based on a user'' @ [CHR 0x27] @ ''s request. Please provide a clear, helpful summary of what was accomplished.'',
         '''',
         ''Original user request: '' @ user_query,
         '''',
         ''Your reasoning: '' @ py_str E reasoning,
         '''',
         ''Tool execution results:'',
         join nl results_summary,
         '''',
         ''Please provide a natural language summary of what was accomplished, what the results mean, and any next steps the user might want to take. Be conversational and helpful.''] @ nl\<close>

definition create_summary_prompt ::
  "env \<Rightarrow> string \<Rightarrow> json \<Rightarrow> outcome list \<Rightarrow> py_exn + string" where
  "create_summary_prompt E user_query reasoning results =
     bind_exn (result_lines E 0 results) (\<lambda>results_summary.
       Inr (summary_text E user_query reasoning results_summary))"

subsection \<open>\_generate\_summary and process\_request\<close>

definition generate_summary ::
  "env \<Rightarrow> backend \<Rightarrow> string \<Rightarrow> json \<Rightarrow> outcome list \<Rightarrow> trace \<Rightarrow>
     (py_exn + string) \<times> trace" where
  "generate_summary E b user_query reasoning results tr =
     (case create_summary_prompt E user_query reasoning results of
        Inl e \<Rightarrow> (Inl e, tr)
      | Inr prompt \<Rightarrow>
          (case complete E b 1000 prompt tr of
             (Inr text, tr') \<Rightarrow> (Inr text, tr')
           | (Inl e, tr') \<Rightarrow> (Inr (''Error generating summary: '' @ str_exn E e), tr')))"

definition no_tools_needed :: string where
  "no_tools_needed = ''No tools were needed for this request.''"

definition process_request ::
  "env \<Rightarrow> backend \<Rightarrow> manager \<Rightarrow> string \<Rightarrow> trace \<Rightarrow> (py_exn + RequestResult) \<times> trace" where
  "process_request E b mgr user_query tr =
     (case select_tools E b mgr user_query tr of
        (Inl e, tr1) \<Rightarrow> (Inl e, tr1)
      | (Inr (reasoning, tool_calls), tr1) \<Rightarrow>
          (if tool_calls = [] then
             (Inr \<lparr>res_success = True, res_reasoning = reasoning, res_tool_calls = [],
                   res_results = [], res_summary = no_tools_needed\<rparr>, tr1)
           else
             (let (results, tr2) = execute_tool_calls E mgr tool_calls tr1
              in case generate_summary E b user_query reasoning results tr2 of
                   (Inl e, tr3) \<Rightarrow> (Inl e, tr3)
                 | (Inr summary, tr3) \<Rightarrow>
                     (Inr \<lparr>res_success = True, res_reasoning = reasoning,
                           res_tool_calls = tool_calls, res_results = results,
                           res_summary = summary\<rparr>, tr3))))"

section \<open>A scripted environment\<close>

text \<open>
  A concrete environment on which the model is run: a reasoning backend that gives one
  scripted answer to the selection prompt and another to the summary prompt, a provider
  that lists no tools and answers every call with one text block, and a \<open>json.loads\<close>
  that knows the three selection texts below and rejects every other text. The registry
  holds the single provider \<open>wf\<close>; the second call of \<open>demo_selection\<close> names a provider
  \<open>ghost\<close> that is not registered, and the second entry of \<open>malformed_selection\<close> has no
  \<open>reasoning\<close> key.
\<close>

fun is_reasoning :: "event \<Rightarrow> bool" where
  "is_reasoning (GenerateContent p) = True"
| "is_reasoning (MessagesCreate n p) = True"
| "is_reasoning e = False"

definition scripted :: "(py_exn + string) \<Rightarrow> (py_exn + string) \<Rightarrow> trace \<Rightarrow> py_exn + string" where
  "scripted first later tr = (if list_ex is_reasoning tr then later else first)"

definition demo_selection :: string where
  \<open>demo_selection = ''{"reasoning":"two steps needed","tool_calls":[{"connector_name":"wf","tool_name":"start_workflow","arguments":{"title":"Demo"},"reasoning":"r1"},{"connector_name":"ghost","tool_name":"register_actor","arguments":{"name":"Alice","role":"DBA"},"reasoning":"r2"}]}''\<close>

definition demo_call1 :: ToolCall where
  "demo_call1 = \<lparr>tc_connector_name = JString ''wf'', tc_tool_name = JString ''start_workflow'',
     tc_arguments = JObject [(''title'', JString ''Demo'')], tc_reasoning = JString ''r1''\<rparr>"

definition demo_call2 :: ToolCall where
  "demo_call2 = \<lparr>tc_connector_name = JString ''ghost'', tc_tool_name = JString ''register_actor'',
     tc_arguments = JObject [(''name'', JString ''Alice''), (''role'', JString ''DBA'')],
     tc_reasoning = JString ''r2''\<rparr>"

definition call_json :: "ToolCall \<Rightarrow> json" where
  "call_json c = JObject [(''connector_name'', tc_connector_name c), (''tool_name'', tc_tool_name c),
     (''arguments'', tc_arguments c), (''reasoning'', tc_reasoning c)]"

definition demo_selection_json :: json where
  "demo_selection_json = JObject [(''reasoning'', JString ''two steps needed''),
     (''tool_calls'', JArray [call_json demo_call1, call_json demo_call2])]"

definition empty_selection :: string where
  \<open>empty_selection = ''{"reasoning":"nothing to do","tool_calls":[]}''\<close>

definition malformed_selection :: string where
  \<open>malformed_selection = ''{"reasoning":"r","tool_calls":[{"connector_name":"wf","tool_name":"start_workflow","arguments":{"title":"Demo"},"reasoning":"r1"},{"connector_name":"wf","tool_name":"register_actor","arguments":{}}]}''\<close>

definition malformed_entry :: "(string \<times> json) list" where
  "malformed_entry = [(''connector_name'', JString ''wf''), (''tool_name'', JString ''register_actor''),
     (''arguments'', JObject [])]"

definition malformed_selection_kvs :: "(string \<times> json) list" where
  "malformed_selection_kvs = [(''reasoning'', JString ''r''),
     (''tool_calls'', JArray [call_json demo_call1, JObject malformed_entry])]"

definition prose_reply :: string where
  "prose_reply = ''I cannot help with that.''"

definition demo_loads :: "string \<Rightarrow> py_exn + json" where
  "demo_loads s =
     (if s = demo_selection then Inr demo_selection_json
      else if s = empty_selection then
        Inr (JObject [(''reasoning'', JString ''nothing to do''), (''tool_calls'', JArray [])])
      else if s = malformed_selection then Inr (JObject malformed_selection_kvs)
      else Inl (JSONDecodeError ''Expecting value''))"

definition demo_post :: "trace \<Rightarrow> nat \<Rightarrow> string \<Rightarrow> json \<Rightarrow> py_exn + json" where
  "demo_post tr sid url body =
     (if body = list_request then Inr (JObject [(''result'', JObject [(''tools'', JArray [])])])
      else Inr (JObject [(''result'', JObject [(''content'',
             JArray [JObject [(''type'', JString ''text''), (''text'', JString ''done'')]])])]))"

definition demo_env :: "(trace \<Rightarrow> py_exn + string) \<Rightarrow> env" where
  "demo_env reply =
     \<lparr>generate_content = (\<lambda>tr p. reply tr), messages_create = (\<lambda>tr n p. reply tr),
      http_post = demo_post, session_close = (\<lambda>tr sid. None), json_loads = demo_loads,
      interp_text = (\<lambda>e. ''exception''), str_other = (\<lambda>v. ''value''),
      coerce_content = (\<lambda>v. None), coerce_text = (\<lambda>v. None), coerce_schema = (\<lambda>v. None)\<rparr>"

definition demo_client :: MCPClient where
  "demo_client = \<lparr>base_url = ''http://localhost:3000'',
     mcp_endpoint = ''http://localhost:3000/mcp'', session = Some 0\<rparr>"

definition demo_mgr :: manager where
  "demo_mgr = [(''wf'', demo_client)]"

text \<open>The trace after the catalogue query on \<open>demo_mgr\<close>.\<close>

definition demo_listed :: trace where
  "demo_listed = [Post 0 ''http://localhost:3000/mcp'' list_request]"

text \<open>Three scripts of the backend: no call needed, the two calls, and a failure.\<close>

definition idle_env :: env where
  "idle_env = demo_env (scripted (Inr empty_selection) (Inr ''unused''))"

definition failing_env :: env where
  "failing_env = demo_env (scripted (Inl (LibraryError ''quota exceeded''))
                                    (Inl (LibraryError ''quota exceeded'')))"

definition busy_env :: env where
  "busy_env = demo_env (scripted (Inr demo_selection) (Inl (LibraryError ''quota exceeded'')))"

definition prose_env :: env where
  "prose_env = demo_env (scripted (Inr prose_reply) (Inr ''unused''))"

text \<open>A fourth script: the two calls, and a summary that is given.\<close>

definition done_env :: env where
  "done_env = demo_env (scripted (Inr demo_selection) (Inr ''All done.''))"

text \<open>What the two calls of \<open>demo_selection\<close> give on \<open>demo_mgr\<close>.\<close>

definition demo_payload :: MCPToolResult where
  "demo_payload = \<lparr>content = [[(''type'', JString ''text''), (''text'', JString ''done'')]],
                    error = None\<rparr>"

definition demo_outcome1 :: outcome where
  "demo_outcome1 = \<lparr>out_tool_call = demo_call1, out_success = True,
                     out_result = Some demo_payload, out_error = None\<rparr>"

definition demo_outcome2 :: outcome where
  "demo_outcome2 = \<lparr>out_tool_call = demo_call2, out_success = False, out_result = None,
     out_error = Some (''Connector '' @ [CHR 0x27] @ ''ghost'' @ [CHR 0x27] @ '' not found'')\<rparr>"

definition demo_dispatch1 :: event where
  "demo_dispatch1 = Post 0 ''http://localhost:3000/mcp''
     (call_request (JString ''start_workflow'') (JObject [(''title'', JString ''Demo'')]))"

text \<open>The lines of the summary prompt for the two outcomes, and the traces of that run.\<close>

definition demo_lines :: "string list" where
  "demo_lines =
     [''Tool 1: start_workflow - Success'' @ nl @ ''Result: done'',
      ''Tool 2: register_actor - Failed'' @ nl @ ''Error: Connector '' @ [CHR 0x27] @ ''ghost''
        @ [CHR 0x27] @ '' not found'']"

definition demo_summary_prompt :: string where
  "demo_summary_prompt = summary_text busy_env ''hello'' (JString ''two steps needed'') demo_lines"

definition demo_selected :: trace where
  "demo_selected = demo_listed @ [GenerateContent (create_tool_selection_prompt ''hello'' [])]"

text \<open>Outcomes with two blocks, one block and no block, and two fenced responses.\<close>

definition demo_block1 :: "(string \<times> json) list" where
  "demo_block1 = [(''type'', JString ''text''), (''text'', JString ''first'')]"

definition demo_block2 :: "(string \<times> json) list" where
  "demo_block2 = [(''type'', JString ''text''), (''text'', JString ''second'')]"

definition demo_two_payload :: MCPToolResult where
  "demo_two_payload = \<lparr>content = [demo_block1, demo_block2], error = None\<rparr>"

definition demo_two_blocks :: outcome where
  "demo_two_blocks = \<lparr>out_tool_call = demo_call1, out_success = True,
     out_result = Some demo_two_payload, out_error = None\<rparr>"

definition demo_first_block :: outcome where
  "demo_first_block = \<lparr>out_tool_call = demo_call1, out_success = True,
     out_result = Some \<lparr>content = [demo_block1], error = None\<rparr>, out_error = None\<rparr>"

definition demo_no_content :: outcome where
  "demo_no_content = \<lparr>out_tool_call = demo_call1, out_success = True,
     out_result = Some \<lparr>content = [], error = None\<rparr>, out_error = None\<rparr>"

definition demo_first_line :: string where
  "demo_first_line = ''Tool 1: start_workflow - Success'' @ nl @ ''Result: first''"

definition bare_fenced :: string where
  "bare_fenced = ''```'' @ nl @ empty_selection @ nl @ ''```''"

definition bare_cleaned :: string where
  "bare_cleaned = ''```'' @ nl @ empty_selection"

definition json_fenced :: string where
  "json_fenced = ''```json'' @ nl @ empty_selection @ nl @ ''```''"

section \<open>Auxiliary facts\<close>

lemma bind_exn_Inl: "bind_exn (Inl e) f = Inl e"
  by (simp add: bind_exn_def)

lemma bind_exn_Inr: "bind_exn (Inr x) f = f x"
  by (simp add: bind_exn_def)

lemma mapM_exn_fails:
  "x \<in> set xs \<Longrightarrow> f x = Inl e \<Longrightarrow> \<exists>e'. mapM_exn f xs = Inl e'"
proof (induction xs)
  case Nil
  then show ?case by simp
next
  case (Cons y ys)
  show ?case
  proof (cases "f y")
    case (Inl a)
    then show ?thesis by simp
  next
    case (Inr b)
    with Cons have "x \<in> set ys" by auto
    with Cons obtain e' where "mapM_exn f ys = Inl e'" by blast
    with Inr show ?thesis by simp
  qed
qed

lemma parse_tool_call_dict:
  "parse_tool_call (JObject ekvs) =
     (case map_of ekvs ''connector_name'' of None \<Rightarrow> Inl (KeyError ''connector_name'')
      | Some c \<Rightarrow>
     (case map_of ekvs ''tool_name'' of None \<Rightarrow> Inl (KeyError ''tool_name'')
      | Some t \<Rightarrow>
     (case map_of ekvs ''arguments'' of None \<Rightarrow> Inl (KeyError ''arguments'')
      | Some a \<Rightarrow>
     (case map_of ekvs ''reasoning'' of None \<Rightarrow> Inl (KeyError ''reasoning'')
      | Some r \<Rightarrow>
         Inr \<lparr>tc_connector_name = c, tc_tool_name = t, tc_arguments = a,
              tc_reasoning = r\<rparr>))))"
  by (simp add: parse_tool_call_def bind_exn_Inl bind_exn_Inr split: option.split)

section \<open>Properties of the executor\<close>

lemma execute_tool_calls_append:
  "execute_tool_calls E mgr (xs @ ys) tr =
     (let (rs1, tr1) = execute_tool_calls E mgr xs tr;
          (rs2, tr2) = execute_tool_calls E mgr ys tr1
      in (rs1 @ rs2, tr2))"
  by (induction xs arbitrary: tr) (simp_all add: split_def Let_def)

lemma execute_one_call: "out_tool_call (fst (execute_one E mgr tc tr)) = tc"
  by (simp add: execute_one_def split: prod.splits sum.splits)

lemma execute_tool_calls_calls:
  "map out_tool_call (fst (execute_tool_calls E mgr calls tr)) = calls"
  by (induction calls arbitrary: tr) (simp_all add: split_def Let_def execute_one_call)

section \<open>Runs of the scripted environment\<close>

lemma demo_env_fields:
  "generate_content (demo_env reply) tr p = reply tr"
  "messages_create (demo_env reply) tr n p = reply tr"
  "http_post (demo_env reply) = demo_post"
  "session_close (demo_env reply) tr sid = None"
  "json_loads (demo_env reply) = demo_loads"
  "interp_text (demo_env reply) e = ''exception''"
  "str_other (demo_env reply) v = ''value''"
  by (simp_all add: demo_env_def)

lemmas strip_defs = clean_response_def strip_def lstrip_def rstrip_def isspace_def nl_def
  suffix_to_prefix

lemma clean_demo_texts:
  "clean_response empty_selection = empty_selection"
  "clean_response demo_selection = demo_selection"
  "clean_response malformed_selection = malformed_selection"
  by (simp_all add: strip_defs empty_selection_def demo_selection_def malformed_selection_def)

lemma demo_loads_texts:
  "demo_loads empty_selection =
     Inr (JObject [(''reasoning'', JString ''nothing to do''), (''tool_calls'', JArray [])])"
  "demo_loads demo_selection = Inr demo_selection_json"
  "demo_loads malformed_selection = Inr (JObject malformed_selection_kvs)"
  by (simp_all add: demo_loads_def empty_selection_def demo_selection_def
      malformed_selection_def)

lemmas catalog_defs = get_available_tools_def list_tools_def list_tools_try_def
  connector_tools_def bind_exn_Inl bind_exn_Inr

text \<open>
  C5. When the selection returns no tool call, \<open>process_request\<close> returns the result with
  an empty list of calls, an empty list of outcomes and the fixed summary, and the trace
  it leaves is the trace the selection left: nothing is dispatched and the backend is not
  called for a summary.
\<close>

theorem no_calls_short_circuit:
  assumes "select_tools E b mgr q tr = (Inr (reasoning, []), tr1)"
  shows "process_request E b mgr q tr =
           (Inr \<lparr>res_success = True, res_reasoning = reasoning, res_tool_calls = [],
                 res_results = [], res_summary = ''No tools were needed for this request.''\<rparr>, tr1)"
  using assms by (simp add: process_request_def no_tools_needed_def)

lemma demo_catalog:
  "get_available_tools (demo_env reply) demo_mgr [] =
     (Inr [], demo_listed)"
  by (simp add: catalog_defs demo_env_fields demo_post_def demo_mgr_def demo_client_def
      demo_listed_def)

lemma demo_listed_quiet: "\<not> list_ex is_reasoning demo_listed"
  by (simp add: demo_listed_def)

lemma demo_select_empty:
  "select_tools idle_env Gemini demo_mgr
       ''hello'' [] =
     (Inr (JString ''nothing to do'', []),
      demo_listed @ [GenerateContent (create_tool_selection_prompt ''hello'' [])])"
  by (simp add: select_tools_def demo_catalog complete_def extract_intent_def
      idle_env_def demo_env_fields scripted_def demo_listed_quiet clean_demo_texts demo_loads_texts
      parse_selection_def bind_exn_Inl bind_exn_Inr)

text \<open>The run of \<open>idle_env\<close>, whose backend selects no tool.\<close>

theorem no_calls_short_circuit_witness:
  "select_tools idle_env Gemini demo_mgr
       ''hello'' [] =
     (Inr (JString ''nothing to do'', []),
      demo_listed @ [GenerateContent (create_tool_selection_prompt ''hello'' [])])
   \<and> process_request idle_env Gemini
       demo_mgr ''hello'' [] =
     (Inr \<lparr>res_success = True, res_reasoning = JString ''nothing to do'', res_tool_calls = [],
           res_results = [], res_summary = ''No tools were needed for this request.''\<rparr>,
      demo_listed @ [GenerateContent (create_tool_selection_prompt ''hello'' [])])"
  using no_calls_short_circuit [OF demo_select_empty] demo_select_empty by simp

section \<open>Selection and the request as a whole\<close>

lemma parse_tool_call_missing:
  assumes "k \<in> {''connector_name'', ''tool_name'', ''arguments'', ''reasoning''}"
    and "map_of ekvs k = None"
  shows "\<exists>e. parse_tool_call (JObject ekvs) = Inl e"
proof -
  have 1: "\<exists>e. parse_tool_call (JObject ekvs) = Inl e"
    if "map_of ekvs ''connector_name'' = None"
    using that by (simp add: parse_tool_call_dict)
  have 2: "\<exists>e. parse_tool_call (JObject ekvs) = Inl e"
    if "map_of ekvs ''tool_name'' = None"
    using that by (cases "map_of ekvs ''connector_name''") (simp_all add: parse_tool_call_dict)
  have 3: "\<exists>e. parse_tool_call (JObject ekvs) = Inl e"
    if "map_of ekvs ''arguments'' = None"
    using that
    by (cases "map_of ekvs ''connector_name''"; cases "map_of ekvs ''tool_name''")
       (simp_all add: parse_tool_call_dict)
  have 4: "\<exists>e. parse_tool_call (JObject ekvs) = Inl e"
    if "map_of ekvs ''reasoning'' = None"
    using that
    by (cases "map_of ekvs ''connector_name''"; cases "map_of ekvs ''tool_name''";
        cases "map_of ekvs ''arguments''")
       (simp_all add: parse_tool_call_dict)
  from assms(1) have "k = ''connector_name'' \<or> k = ''tool_name''
    \<or> k = ''arguments'' \<or> k = ''reasoning''" by simp
  then show ?thesis
  proof (elim disjE)
    assume "k = ''connector_name''"
    with assms(2) show ?thesis by (intro 1) simp
  next
    assume "k = ''tool_name''"
    with assms(2) show ?thesis by (intro 2) simp
  next
    assume "k = ''arguments''"
    with assms(2) show ?thesis by (intro 3) simp
  next
    assume "k = ''reasoning''"
    with assms(2) show ?thesis by (intro 4) simp
  qed
qed

text \<open>
  C4. When the parsed response is a dict whose \<open>tool_calls\<close> list has a dict entry without
  one of the four required keys, the extraction returns no call at all, and its
  rationale is the text of the outer handler: the well-formed entries are lost too.
\<close>

theorem malformed_entry_aborts_extraction:
  assumes "json_loads E (clean_response content0) = Inr (JObject kvs)"
    and "map_of kvs ''tool_calls'' = Some (JArray entries)"
    and "JObject ekvs \<in> set entries"
    and "k \<in> {''connector_name'', ''tool_name'', ''arguments'', ''reasoning''}"
    and "map_of ekvs k = None"
  shows "snd (extract_intent E (Inr content0)) = []
         \<and> (\<exists>e. extract_intent E (Inr content0) = selection_error E e)"
proof -
  obtain e where e: "parse_tool_call (JObject ekvs) = Inl e"
    using parse_tool_call_missing [OF assms(4,5)] by (elim exE)
  obtain e' where "mapM_exn parse_tool_call entries = Inl e'"
    using mapM_exn_fails [of "JObject ekvs" entries parse_tool_call e, OF assms(3) e] by (elim exE)
  then have "parse_selection (JObject kvs) = Inl e'"
    using assms(2) by (simp add: parse_selection_def bind_exn_Inl bind_exn_Inr)
  then have *: "extract_intent E (Inr content0) = selection_error E e'"
    using assms(1) by (simp add: extract_intent_def)
  have "snd (selection_error E e') = []"
    by (simp add: selection_error_def)
  with * show ?thesis by (intro conjI exI [of _ e']) simp_all
qed

text \<open>
  C8. When \<open>json.loads\<close> rejects the cleaned response with a \<open>JSONDecodeError\<close>, the
  selection returns the fixed text and no call, and \<open>process_request\<close> returns the result
  of a request that needed no tool.
\<close>

theorem parse_failure_is_soft:
  assumes "get_available_tools E mgr tr = (Inr tools, tr1)"
    and "complete E b 2000 (create_tool_selection_prompt q tools) tr1 = (Inr content0, tr2)"
    and "json_loads E (clean_response content0) = Inl (JSONDecodeError m)"
  shows "select_tools E b mgr q tr = (Inr (JString ''Failed to parse tool selection'', []), tr2)
         \<and> process_request E b mgr q tr =
             (Inr \<lparr>res_success = True, res_reasoning = JString ''Failed to parse tool selection'',
                   res_tool_calls = [], res_results = [],
                   res_summary = ''No tools were needed for this request.''\<rparr>, tr2)"
proof -
  have ex: "extract_intent E (Inr content0) = (JString ''Failed to parse tool selection'', [])"
    using assms(3) by (simp add: extract_intent_def parse_failure_def)
  have sel: "select_tools E b mgr q tr = (Inr (JString ''Failed to parse tool selection'', []), tr2)"
    using assms(1,2) ex by (simp add: select_tools_def)
  show ?thesis
    using sel by (simp add: process_request_def no_tools_needed_def)
qed

lemma process_request_success:
  assumes "fst (process_request E b mgr q tr) = Inr r"
  shows "res_success r"
proof (cases "select_tools E b mgr q tr")
  case (Pair res tr1)
  show ?thesis
  proof (cases res)
    case (Inl e)
    with Pair assms show ?thesis by (simp add: process_request_def)
  next
    case (Inr rc)
    obtain reasoning calls where rc: "rc = (reasoning, calls)" by (cases rc)
    show ?thesis
    proof (cases "calls = []")
      case True
      with Pair Inr rc assms show ?thesis by (auto simp add: process_request_def)
    next
      case False
      obtain results tr2 where ex: "execute_tool_calls E mgr calls tr1 = (results, tr2)"
        by (cases "execute_tool_calls E mgr calls tr1")
      obtain s tr3 where gs: "generate_summary E b q reasoning results tr2 = (s, tr3)"
        by (cases "generate_summary E b q reasoning results tr2")
      from Pair Inr rc False ex gs assms show ?thesis
        by (cases s) (auto simp add: process_request_def)
    qed
  qed
qed

text \<open>
  What \<open>remove_connector\<close> does. Removing a name that is not registered changes nothing
  and raises nothing. Removing a registered name whose session closes normally closes
  that session and deletes the entry.
\<close>

theorem remove_connector_registered_or_noop:
  "(map_of mgr n = None \<longrightarrow> remove_connector E n mgr tr = (None, mgr, tr))
   \<and> (map_of mgr n = Some client \<and> session client = Some sid \<and> session_close E tr sid = None \<longrightarrow>
        remove_connector E n mgr tr = (None, AList.delete n mgr, tr @ [SessionClose sid])
        \<and> map_of (AList.delete n mgr) n = None)"
  by (auto simp add: remove_connector_def aexit_def AList.delete_conv')

text \<open>Both cases on the registry \<open>demo_mgr\<close>.\<close>

theorem remove_connector_registered_or_noop_witness:
  "(map_of demo_mgr ''ghost'' = None
    \<and> remove_connector idle_env ''ghost'' demo_mgr [] = (None, demo_mgr, []))
   \<and> (map_of demo_mgr ''wf'' = Some demo_client \<and> session demo_client = Some 0
      \<and> session_close idle_env [] 0 = None
      \<and> remove_connector idle_env ''wf'' demo_mgr [] = (None, [], [SessionClose 0]))"
  using remove_connector_registered_or_noop [of demo_mgr "''ghost''" idle_env "[]"]
    remove_connector_registered_or_noop [of demo_mgr "''wf''" idle_env "[]" demo_client 0]
  by (simp add: demo_mgr_def demo_client_def idle_env_def demo_env_fields)

text \<open>
  C9 does not hold for a name that is not registered: on \<open>demo_mgr\<close>, removing the name
  \<open>ghost\<close> returns normally, with no exception, the registry unchanged and no effect.
\<close>

theorem remove_unregistered_raises_nothing:
  "map_of demo_mgr ''ghost'' = None
   \<and> remove_connector idle_env ''ghost'' demo_mgr [] = (None, demo_mgr, [])"
  by (simp add: remove_connector_def demo_mgr_def)

lemma demo_loads_prose: "demo_loads prose_reply = Inl (JSONDecodeError ''Expecting value'')"
  by (simp add: demo_loads_def prose_reply_def empty_selection_def demo_selection_def
      malformed_selection_def)

lemma clean_prose: "clean_response prose_reply = prose_reply"
  by (simp add: strip_defs prose_reply_def)

text \<open>The response \<open>malformed_selection\<close>: its first entry is well formed, its second is not.\<close>

theorem malformed_entry_aborts_extraction_witness:
  "json_loads (demo_env (scripted (Inr malformed_selection) (Inr ''unused'')))
       (clean_response malformed_selection) = Inr (JObject malformed_selection_kvs)
   \<and> map_of malformed_selection_kvs ''tool_calls'' =
       Some (JArray [call_json demo_call1, JObject malformed_entry])
   \<and> JObject malformed_entry \<in> set [call_json demo_call1, JObject malformed_entry]
   \<and> ''reasoning'' \<in> {''connector_name'', ''tool_name'', ''arguments'', ''reasoning''}
   \<and> map_of malformed_entry ''reasoning'' = None
   \<and> snd (extract_intent (demo_env (scripted (Inr malformed_selection) (Inr ''unused'')))
            (Inr malformed_selection)) = []"
proof -
  let ?E = "demo_env (scripted (Inr malformed_selection) (Inr ''unused''))"
  have h1: "json_loads ?E (clean_response malformed_selection) = Inr (JObject malformed_selection_kvs)"
    by (simp add: demo_env_fields clean_demo_texts demo_loads_texts)
  have h2: "map_of malformed_selection_kvs ''tool_calls'' =
       Some (JArray [call_json demo_call1, JObject malformed_entry])"
    by (simp add: malformed_selection_kvs_def)
  have h3: "JObject malformed_entry \<in> set [call_json demo_call1, JObject malformed_entry]"
    by simp
  have h4: "''reasoning'' \<in> {''connector_name'', ''tool_name'', ''arguments'', ''reasoning''}"
    by simp
  have h5: "map_of malformed_entry ''reasoning'' = None"
    by (simp add: malformed_entry_def)
  show ?thesis
    using malformed_entry_aborts_extraction [OF h1 h2 h3 h4 h5] h1 h2 h3 h4 h5 by simp
qed

lemma demo_select_prose:
  "select_tools prose_env Gemini demo_mgr ''hello'' [] =
     (Inr (JString ''Failed to parse tool selection'', []),
      demo_listed @ [GenerateContent (create_tool_selection_prompt ''hello'' [])])"
  by (simp add: select_tools_def demo_catalog complete_def extract_intent_def
      prose_env_def demo_env_fields scripted_def demo_listed_quiet clean_prose demo_loads_prose
      parse_failure_def)

text \<open>The run of \<open>prose_env\<close>, whose backend answers in prose.\<close>

theorem parse_failure_is_soft_witness:
  "get_available_tools prose_env demo_mgr [] = (Inr [], demo_listed)
   \<and> complete prose_env Gemini 2000 (create_tool_selection_prompt ''hello'' []) demo_listed =
       (Inr prose_reply, demo_listed @ [GenerateContent (create_tool_selection_prompt ''hello'' [])])
   \<and> json_loads prose_env (clean_response prose_reply) = Inl (JSONDecodeError ''Expecting value'')
   \<and> select_tools prose_env Gemini demo_mgr ''hello'' [] =
       (Inr (JString ''Failed to parse tool selection'', []),
        demo_listed @ [GenerateContent (create_tool_selection_prompt ''hello'' [])])
   \<and> process_request prose_env Gemini demo_mgr ''hello'' [] =
       (Inr \<lparr>res_success = True, res_reasoning = JString ''Failed to parse tool selection'',
             res_tool_calls = [], res_results = [],
             res_summary = ''No tools were needed for this request.''\<rparr>,
        demo_listed @ [GenerateContent (create_tool_selection_prompt ''hello'' [])])"
proof -
  have h1: "get_available_tools prose_env demo_mgr [] = (Inr [], demo_listed)"
    by (simp add: prose_env_def demo_catalog)
  have h2: "complete prose_env Gemini 2000 (create_tool_selection_prompt ''hello'' []) demo_listed =
       (Inr prose_reply, demo_listed @ [GenerateContent (create_tool_selection_prompt ''hello'' [])])"
    by (simp add: complete_def prose_env_def demo_env_fields scripted_def demo_listed_quiet)
  have h3: "json_loads prose_env (clean_response prose_reply) = Inl (JSONDecodeError ''Expecting value'')"
    by (simp add: prose_env_def demo_env_fields clean_prose demo_loads_prose)
  show ?thesis
    using parse_failure_is_soft [OF h1 h2 h3] h1 h2 h3 by simp
qed

lemma demo_select_failing:
  "select_tools failing_env Gemini demo_mgr ''hello'' [] =
     (Inr (JString ''Error in tool selection: quota exceeded'', []),
      demo_listed @ [GenerateContent (create_tool_selection_prompt ''hello'' [])])"
  by (simp add: select_tools_def demo_catalog complete_def extract_intent_def
      failing_env_def demo_env_fields scripted_def demo_listed_quiet selection_error_def)

lemma demo_complete_failing:
  "complete failing_env Gemini 2000 (create_tool_selection_prompt ''hello'' []) demo_listed =
     (Inl (LibraryError ''quota exceeded''),
      demo_listed @ [GenerateContent (create_tool_selection_prompt ''hello'' [])])"
  by (simp add: complete_def failing_env_def demo_env_fields scripted_def demo_listed_quiet)

text \<open>
  The run of \<open>failing_env\<close>: the reasoning call of the selection raises and the result
  has \<open>success = True\<close>.
\<close>

theorem reasoning_failure_still_succeeded:
  "fst (complete failing_env Gemini 2000 (create_tool_selection_prompt ''hello'' []) demo_listed) =
     Inl (LibraryError ''quota exceeded'')
   \<and> fst (process_request failing_env Gemini demo_mgr ''hello'' []) =
     Inr \<lparr>res_success = True,
          res_reasoning = JString ''Error in tool selection: quota exceeded'',
          res_tool_calls = [], res_results = [],
          res_summary = ''No tools were needed for this request.''\<rparr>"
  by (simp add: process_request_def demo_select_failing no_tools_needed_def
      demo_complete_failing)

section \<open>Unknown providers\<close>

lemma execute_one_unregistered:
  assumes "tc_connector_name c = JString n" and "map_of mgr n = None"
  shows "execute_one E mgr c tr =
           (\<lparr>out_tool_call = c, out_success = False, out_result = None,
             out_error = Some (''Connector '' @ [CHR 0x27] @ n @ [CHR 0x27] @ '' not found'')\<rparr>, tr)"
  using assms by (simp add: execute_one_def call_tool_on_connector_def not_found_def)

text \<open>
  C7. A call whose \<open>connector_name\<close> is a \<open>str\<close> that is not a key of the registry gets
  an outcome with \<open>success = False\<close>, no result, and the error text
  \<open>Connector '<name>' not found\<close>, in which the name occurs. The executor returns
  normally: the calls before it and after it are executed as if it were not there, and
  the trace is not touched by it.
\<close>

theorem unknown_provider_fails_softly:
  assumes "tc_connector_name c = JString n" and "map_of mgr n = None"
  shows "execute_tool_calls E mgr (pre @ c # post) tr =
           (let (rs1, tr1) = execute_tool_calls E mgr pre tr;
                (rs2, tr2) = execute_tool_calls E mgr post tr1
            in (rs1 @ \<lparr>out_tool_call = c, out_success = False, out_result = None,
                       out_error = Some (''Connector '' @ [CHR 0x27] @ n @ [CHR 0x27]
                                         @ '' not found'')\<rparr> # rs2, tr2))
         \<and> sublist n (''Connector '' @ [CHR 0x27] @ n @ [CHR 0x27] @ '' not found'')"
proof -
  have "sublist n ((''Connector '' @ [CHR 0x27]) @ n @ ([CHR 0x27] @ '' not found''))"
    by (rule sublist_appendI)
  then have s: "sublist n (''Connector '' @ [CHR 0x27] @ n @ [CHR 0x27] @ '' not found'')"
    by simp
  have "execute_tool_calls E mgr (pre @ c # post) tr =
           (let (rs1, tr1) = execute_tool_calls E mgr pre tr;
                (rs2, tr2) = execute_tool_calls E mgr post tr1
            in (rs1 @ \<lparr>out_tool_call = c, out_success = False, out_result = None,
                       out_error = Some (''Connector '' @ [CHR 0x27] @ n @ [CHR 0x27]
                                         @ '' not found'')\<rparr> # rs2, tr2))"
    by (simp add: execute_tool_calls_append execute_one_unregistered [OF assms]
        split_def Let_def)
  with s show ?thesis by (rule conjI [rotated])
qed

lemmas dispatch_defs = execute_one_def call_tool_on_connector_def call_tool_def
  call_tool_try_def MCPToolResult_init_def validate_content_def validate_error_def
  bind_exn_Inl bind_exn_Inr

lemma demo_dispatch_call1:
  "execute_one (demo_env reply) demo_mgr demo_call1 tr = (demo_outcome1, tr @ [demo_dispatch1])"
  by (simp add: dispatch_defs demo_env_fields demo_post_def demo_mgr_def demo_client_def
      demo_call1_def demo_outcome1_def demo_payload_def demo_dispatch1_def
      call_request_def list_request_def)

text \<open>Three calls on \<open>demo_mgr\<close>, the second to the unregistered provider \<open>ghost\<close>.\<close>

theorem unknown_provider_fails_softly_witness:
  "tc_connector_name demo_call2 = JString ''ghost'' \<and> map_of demo_mgr ''ghost'' = None
   \<and> execute_tool_calls busy_env demo_mgr ([demo_call1] @ demo_call2 # [demo_call1]) [] =
       ([demo_outcome1, demo_outcome2, demo_outcome1], [demo_dispatch1, demo_dispatch1])
   \<and> sublist ''ghost'' (''Connector '' @ [CHR 0x27] @ ''ghost'' @ [CHR 0x27] @ '' not found'')"
proof -
  have h1: "tc_connector_name demo_call2 = JString ''ghost''"
    by (simp add: demo_call2_def)
  have h2: "map_of demo_mgr ''ghost'' = None"
    by (simp add: demo_mgr_def)
  have e: "execute_tool_calls busy_env demo_mgr [demo_call1] tr =
             ([demo_outcome1], tr @ [demo_dispatch1])" for tr
    by (simp add: busy_env_def demo_dispatch_call1)
  show ?thesis
    using unknown_provider_fails_softly [OF h1 h2, of busy_env "[demo_call1]" "[demo_call1]" "[]"]
      h1 h2 e
    by (simp add: demo_outcome2_def)
qed

section \<open>Failure of the summary\<close>

lemma execute_one_result:
  "out_success (fst (execute_one E mgr tc tr)) \<Longrightarrow>
   \<exists>res. out_result (fst (execute_one E mgr tc tr)) = Some res"
  by (cases "call_tool_on_connector E mgr (tc_connector_name tc) (tc_tool_name tc)
               (tc_arguments tc) tr")
     (auto simp add: execute_one_def split: sum.splits)

lemma result_line_total:
  assumes "out_success r \<Longrightarrow> \<exists>res. out_result r = Some res"
  shows "\<exists>l. result_line E i r = Inr l"
proof (cases "out_success r")
  case True
  with assms obtain res where "out_result r = Some res" by blast
  with True show ?thesis
    by (cases "content res") (simp_all add: result_line_def)
next
  case False
  then show ?thesis by (simp add: result_line_def)
qed

lemma result_lines_executed:
  "\<exists>ls. result_lines E i (fst (execute_tool_calls E' mgr calls tr)) = Inr ls"
proof (induction calls arbitrary: i tr)
  case Nil
  show ?case by simp
next
  case (Cons c cs)
  obtain r tr1 where r: "execute_one E' mgr c tr = (r, tr1)"
    by (cases "execute_one E' mgr c tr")
  have "out_success r \<Longrightarrow> \<exists>res. out_result r = Some res"
    using execute_one_result [of E' mgr c tr] r by simp
  then obtain l where l: "result_line E i r = Inr l"
    using result_line_total [of r E i] by blast
  obtain ls where ls: "result_lines E (Suc i) (fst (execute_tool_calls E' mgr cs tr1)) = Inr ls"
    using Cons.IH [of "Suc i" tr1] by (elim exE)
  show ?case
    using r l ls by (simp add: split_def Let_def)
qed

text \<open>
  C6. After a selection with at least one call and the execution of the calls, building
  the summary prompt does not raise; when the backend call for the summary raises \<open>e\<close>,
  \<open>process_request\<close> returns \<open>success = True\<close>, the rationale, calls and outcomes computed
  before, and the summary \<open>Error generating summary: \<close> followed by \<open>str(e)\<close>.
\<close>

theorem summary_failure_keeps_results:
  assumes sel: "select_tools E b mgr q tr = (Inr (reasoning, calls), tr1)"
    and ne: "calls \<noteq> []"
    and ex: "execute_tool_calls E mgr calls tr1 = (results, tr2)"
  shows "(\<exists>prompt. create_summary_prompt E q reasoning results = Inr prompt)
         \<and> (create_summary_prompt E q reasoning results = Inr prompt
              \<and> complete E b 1000 prompt tr2 = (Inl e, tr3) \<longrightarrow>
            process_request E b mgr q tr =
              (Inr \<lparr>res_success = True, res_reasoning = reasoning, res_tool_calls = calls,
                    res_results = results,
                    res_summary = ''Error generating summary: '' @ str_exn E e\<rparr>, tr3))"
proof (intro conjI impI)
  obtain ls where "result_lines E 0 (fst (execute_tool_calls E mgr calls tr1)) = Inr ls"
    using result_lines_executed [of E 0 E mgr calls tr1] by (elim exE)
  with ex have "result_lines E 0 results = Inr ls" by simp
  then have "create_summary_prompt E q reasoning results =
               Inr (summary_text E q reasoning ls)"
    by (simp add: create_summary_prompt_def bind_exn_Inr)
  then show "\<exists>prompt. create_summary_prompt E q reasoning results = Inr prompt"
    by (rule exI)
next
  assume a: "create_summary_prompt E q reasoning results = Inr prompt
              \<and> complete E b 1000 prompt tr2 = (Inl e, tr3)"
  then have "generate_summary E b q reasoning results tr2 =
               (Inr (''Error generating summary: '' @ str_exn E e), tr3)"
    by (simp add: generate_summary_def)
  with sel ne ex show "process_request E b mgr q tr =
              (Inr \<lparr>res_success = True, res_reasoning = reasoning, res_tool_calls = calls,
                    res_results = results,
                    res_summary = ''Error generating summary: '' @ str_exn E e\<rparr>, tr3)"
    by (simp add: process_request_def)
qed

lemma str_nat_digits: "str_nat (Suc 0) = ''1''" "str_nat (Suc (Suc 0)) = ''2''"
  by code_simp+

lemma demo_parse:
  "parse_selection demo_selection_json = Inr (JString ''two steps needed'', [demo_call1, demo_call2])"
  by (simp add: parse_selection_def demo_selection_json_def call_json_def parse_tool_call_dict
      bind_exn_Inl bind_exn_Inr)

lemma demo_select_busy:
  "select_tools busy_env Gemini demo_mgr ''hello'' [] =
     (Inr (JString ''two steps needed'', [demo_call1, demo_call2]), demo_selected)"
  by (simp add: select_tools_def demo_catalog complete_def extract_intent_def
      busy_env_def demo_env_fields scripted_def demo_listed_quiet clean_demo_texts
      demo_loads_texts demo_parse demo_selected_def)

lemma demo_dispatch_call2:
  "execute_one E demo_mgr demo_call2 tr = (demo_outcome2, tr)"
  by (simp add: execute_one_def call_tool_on_connector_def not_found_def demo_mgr_def
      demo_call2_def demo_outcome2_def)

lemma demo_execute_busy:
  "execute_tool_calls busy_env demo_mgr [demo_call1, demo_call2] tr =
     ([demo_outcome1, demo_outcome2], tr @ [demo_dispatch1])"
  by (simp add: busy_env_def demo_dispatch_call1 demo_dispatch_call2)

lemma demo_summary_lines:
  "result_lines busy_env 0 [demo_outcome1, demo_outcome2] = Inr demo_lines"
  by (simp add: result_line_def tool_label_def block_text_def demo_outcome1_def
      demo_outcome2_def demo_payload_def demo_call1_def demo_call2_def demo_lines_def
      str_nat_digits)

lemma demo_create_summary_prompt:
  "create_summary_prompt busy_env ''hello'' (JString ''two steps needed'')
     [demo_outcome1, demo_outcome2] = Inr demo_summary_prompt"
  by (simp only: create_summary_prompt_def demo_summary_lines bind_exn_Inr
      demo_summary_prompt_def)

lemma demo_summary_call:
  "complete busy_env Gemini 1000 demo_summary_prompt (demo_selected @ [demo_dispatch1]) =
     (Inl (LibraryError ''quota exceeded''),
      demo_selected @ [demo_dispatch1, GenerateContent demo_summary_prompt])"
  by (simp add: complete_def busy_env_def demo_env_fields scripted_def demo_selected_def)

text \<open>The run of \<open>busy_env\<close>, whose backend fails on the summary prompt.\<close>

theorem summary_failure_keeps_results_witness:
  "select_tools busy_env Gemini demo_mgr ''hello'' [] =
     (Inr (JString ''two steps needed'', [demo_call1, demo_call2]), demo_selected)
   \<and> [demo_call1, demo_call2] \<noteq> []
   \<and> execute_tool_calls busy_env demo_mgr [demo_call1, demo_call2] demo_selected =
       ([demo_outcome1, demo_outcome2], demo_selected @ [demo_dispatch1])
   \<and> create_summary_prompt busy_env ''hello'' (JString ''two steps needed'')
       [demo_outcome1, demo_outcome2] = Inr demo_summary_prompt
   \<and> complete busy_env Gemini 1000 demo_summary_prompt (demo_selected @ [demo_dispatch1]) =
       (Inl (LibraryError ''quota exceeded''),
        demo_selected @ [demo_dispatch1, GenerateContent demo_summary_prompt])
   \<and> process_request busy_env Gemini demo_mgr ''hello'' [] =
       (Inr \<lparr>res_success = True, res_reasoning = JString ''two steps needed'',
             res_tool_calls = [demo_call1, demo_call2],
             res_results = [demo_outcome1, demo_outcome2],
             res_summary = ''Error generating summary: quota exceeded''\<rparr>,
        demo_selected @ [demo_dispatch1, GenerateContent demo_summary_prompt])"
proof -
  have ne: "[demo_call1, demo_call2] \<noteq> []" by simp
  show ?thesis
    using summary_failure_keeps_results
      [OF demo_select_busy ne demo_execute_busy,
       of demo_summary_prompt "LibraryError ''quota exceeded''"
          "demo_selected @ [demo_dispatch1, GenerateContent demo_summary_prompt]"]
      demo_select_busy demo_execute_busy demo_create_summary_prompt demo_summary_call
    by simp
qed

section \<open>The summary prompt and the cleaning\<close>

lemma sublist_join: "l \<in> set ls \<Longrightarrow> sublist l (join sep ls)"
proof (induction sep ls rule: join.induct)
  case (1 sep)
  then show ?case by simp
next
  case (2 sep x)
  then show ?case by simp
next
  case (3 sep x y ys)
  show ?case
  proof (cases "l = x")
    case True
    then show ?thesis by simp
  next
    case False
    with 3 have "sublist l (join sep (y # ys))" by simp
    then have "sublist l ((x @ sep) @ join sep (y # ys))"
      by (rule sublist_order.order.trans) (rule sublist_append_leftI)
    then show ?thesis by simp
  qed
qed

lemma sublist_summary_text: "sublist (join nl ls) (summary_text E q reasoning ls)"
  unfolding summary_text_def
  by (rule sublist_order.order.trans [OF sublist_join sublist_appendI]) simp

lemma result_lines_member:
  "result_lines E i (pre @ r # post) = Inr ls \<Longrightarrow>
   \<exists>l. result_line E (i + length pre) r = Inr l \<and> l \<in> set ls"
proof (induction pre arbitrary: i ls)
  case Nil
  then show ?case by (auto split: sum.splits)
next
  case (Cons a pre)
  from Cons.prems obtain l0 ls0 where a: "result_line E i a = Inr l0"
    and rest: "result_lines E (Suc i) (pre @ r # post) = Inr ls0" and ls: "ls = l0 # ls0"
    by (auto split: sum.splits)
  from Cons.IH [OF rest] obtain l where "result_line E (Suc i + length pre) r = Inr l"
    and "l \<in> set ls0" by blast
  with ls show ?case by auto
qed

lemma result_lines_cong:
  "(\<And>j. result_line E j r = result_line E j r') \<Longrightarrow>
   result_lines E i (pre @ r # post) = result_lines E i (pre @ r' # post)"
  by (induction pre arbitrary: i) (simp_all split: sum.split)

lemma result_line_first_block:
  assumes "out_success r" and "out_result r = Some res" and "content res = b # bs"
  shows "result_line E i r =
           Inr (tool_label E i r @ '' - Success'' @ nl @ ''Result: '' @ py_str E (block_text b))"
  using assms by (simp add: result_line_def)

text \<open>
  C10. For a successful outcome whose payload has the blocks \<open>b # bs\<close>, the line of the
  summary prompt is the label, \<open>- Success\<close> and the text of \<open>b\<close>; the prompt is the one
  the same outcome with the payload \<open>[b]\<close> gives, so no later block reaches it, and the
  text of \<open>b\<close> occurs in the prompt. For a successful outcome with an empty payload
  the line is the label and \<open>- Success (no content)\<close>.
\<close>

theorem summary_prompt_shows_first_block_only:
  "(out_success r \<and> out_result r = Some res \<and> content res = b # bs \<longrightarrow>
      result_line E i r =
        Inr (tool_label E i r @ '' - Success'' @ nl @ ''Result: '' @ py_str E (block_text b))
      \<and> create_summary_prompt E q reasoning (pre @ r # post) =
        create_summary_prompt E q reasoning
          (pre @ r\<lparr>out_result := Some (res\<lparr>content := [b]\<rparr>)\<rparr> # post)
      \<and> (create_summary_prompt E q reasoning (pre @ r # post) = Inr prompt \<longrightarrow>
           sublist (py_str E (block_text b)) prompt))
   \<and> (out_success r \<and> out_result r = Some res \<and> content res = [] \<longrightarrow>
      result_line E i r = Inr (tool_label E i r @ '' - Success (no content)''))"
proof (intro conjI impI)
  assume a: "out_success r \<and> out_result r = Some res \<and> content res = b # bs"
  then show "result_line E i r =
        Inr (tool_label E i r @ '' - Success'' @ nl @ ''Result: '' @ py_str E (block_text b))"
    by (simp add: result_line_first_block)
  have "result_line E j r = result_line E j (r\<lparr>out_result := Some (res\<lparr>content := [b]\<rparr>)\<rparr>)" for j
    using a by (simp add: result_line_def tool_label_def)
  then have "result_lines E 0 (pre @ r # post) =
      result_lines E 0 (pre @ r\<lparr>out_result := Some (res\<lparr>content := [b]\<rparr>)\<rparr> # post)"
    by (rule result_lines_cong)
  then show "create_summary_prompt E q reasoning (pre @ r # post) =
        create_summary_prompt E q reasoning
          (pre @ r\<lparr>out_result := Some (res\<lparr>content := [b]\<rparr>)\<rparr> # post)"
    by (simp add: create_summary_prompt_def)
next
  assume a: "out_success r \<and> out_result r = Some res \<and> content res = b # bs"
  assume p: "create_summary_prompt E q reasoning (pre @ r # post) = Inr prompt"
  then obtain ls where ls: "result_lines E 0 (pre @ r # post) = Inr ls"
    and prompt: "prompt = summary_text E q reasoning ls"
    by (cases "result_lines E 0 (pre @ r # post)")
       (auto simp add: create_summary_prompt_def bind_exn_Inl bind_exn_Inr)
  from result_lines_member [OF ls] obtain l
    where l: "result_line E (0 + length pre) r = Inr l" and mem: "l \<in> set ls" by blast
  from a l have "l = (tool_label E (0 + length pre) r @ '' - Success'' @ nl @ ''Result: '')
                     @ py_str E (block_text b)"
    by (simp add: result_line_first_block)
  then have 1: "sublist (py_str E (block_text b)) l"
    by (simp only: sublist_append_leftI)
  have 2: "sublist l (join nl ls)"
    using mem by (rule sublist_join)
  have 3: "sublist (join nl ls) prompt"
    by (simp only: prompt sublist_summary_text)
  from 1 2 have "sublist (py_str E (block_text b)) (join nl ls)"
    by (rule sublist_order.order.trans)
  then show "sublist (py_str E (block_text b)) prompt"
    using 3 by (rule sublist_order.order.trans)
next
  assume "out_success r \<and> out_result r = Some res \<and> content res = []"
  then show "result_line E i r = Inr (tool_label E i r @ '' - Success (no content)'')"
    by (simp add: result_line_def)
qed

lemma demo_two_blocks_line:
  "result_line busy_env 0 demo_two_blocks = Inr demo_first_line"
  by (simp add: result_line_def tool_label_def block_text_def demo_two_blocks_def
      demo_two_payload_def demo_block1_def demo_call1_def demo_first_line_def str_nat_digits)

lemma demo_two_blocks_prompt:
  "create_summary_prompt busy_env ''hello'' (JString ''r'') [demo_two_blocks] =
     Inr (summary_text busy_env ''hello'' (JString ''r'') [demo_first_line])"
  by (simp add: create_summary_prompt_def demo_two_blocks_line bind_exn_Inr)

text \<open>An outcome with the two blocks \<open>first\<close> and \<open>second\<close>, and one with no block.\<close>

theorem summary_prompt_shows_first_block_only_witness:
  "(out_success demo_two_blocks \<and> out_result demo_two_blocks = Some demo_two_payload
      \<and> content demo_two_payload = demo_block1 # [demo_block2]
      \<and> result_line busy_env 0 demo_two_blocks = Inr demo_first_line
      \<and> create_summary_prompt busy_env ''hello'' (JString ''r'') [demo_two_blocks] =
          create_summary_prompt busy_env ''hello'' (JString ''r'') [demo_first_block]
      \<and> create_summary_prompt busy_env ''hello'' (JString ''r'') [demo_two_blocks] =
          Inr (summary_text busy_env ''hello'' (JString ''r'') [demo_first_line])
      \<and> sublist ''first'' (summary_text busy_env ''hello'' (JString ''r'') [demo_first_line]))
   \<and> (out_success demo_no_content
      \<and> out_result demo_no_content = Some \<lparr>content = [], error = None\<rparr>
      \<and> content \<lparr>content = [], error = None\<rparr> = []
      \<and> result_line busy_env 0 demo_no_content =
          Inr ''Tool 1: start_workflow - Success (no content)'')"
proof -
  have a: "out_success demo_two_blocks \<and> out_result demo_two_blocks = Some demo_two_payload
      \<and> content demo_two_payload = demo_block1 # [demo_block2]"
    by (simp add: demo_two_blocks_def demo_two_payload_def)
  have u: "demo_two_blocks\<lparr>out_result := Some (demo_two_payload\<lparr>content := [demo_block1]\<rparr>)\<rparr>
             = demo_first_block"
    by (simp add: demo_two_blocks_def demo_two_payload_def demo_first_block_def)
  have t: "py_str busy_env (block_text demo_block1) = ''first''"
    by (simp add: block_text_def demo_block1_def)
  have l: "tool_label busy_env 0 demo_two_blocks @ '' - Success'' @ nl @ ''Result: ''
             @ py_str busy_env (block_text demo_block1) = demo_first_line"
    using demo_two_blocks_line a by (simp add: result_line_def)
  have b: "out_success demo_no_content
      \<and> out_result demo_no_content = Some \<lparr>content = [], error = None\<rparr>
      \<and> content \<lparr>content = [], error = None\<rparr> = []"
    by (simp add: demo_no_content_def)
  have n: "tool_label busy_env 0 demo_no_content @ '' - Success (no content)''
             = ''Tool 1: start_workflow - Success (no content)''"
    by (simp add: tool_label_def demo_no_content_def demo_call1_def str_nat_digits)
  show ?thesis
    using summary_prompt_shows_first_block_only
      [where r = demo_two_blocks and res = demo_two_payload and b = demo_block1
         and bs = "[demo_block2]" and E = busy_env and i = 0 and q = "''hello''"
         and reasoning = "JString ''r''" and pre = "[]" and post = "[]"
         and prompt = "summary_text busy_env ''hello'' (JString ''r'') [demo_first_line]"]
      summary_prompt_shows_first_block_only
      [where r = demo_no_content and res = "\<lparr>content = [], error = None\<rparr>"
         and E = busy_env and i = 0]
      a b demo_two_blocks_prompt u t l n
    by simp
qed

lemma isspace_nl: "isspace (CHR 0x0A)"
  by (simp add: isspace_def)

lemma not_isspace_tick: "\<not> isspace (CHR 0x60)"
  by (simp add: isspace_def)

lemma lstrip_nonspace: "\<not> isspace c \<Longrightarrow> lstrip (c # s) = c # s"
  by (simp add: lstrip_def)

lemma rstrip_nonspace: "\<not> isspace c \<Longrightarrow> rstrip (s @ [c]) = s @ [c]"
  by (simp add: rstrip_def)

lemma rstrip_space: "isspace c \<Longrightarrow> rstrip (s @ [c]) = rstrip s"
  by (simp add: rstrip_def)

lemma lstrip_space: "isspace c \<Longrightarrow> lstrip (c # s) = lstrip s"
  by (simp add: lstrip_def)

lemma rstrip_Cons_nonspace: "\<not> isspace c \<Longrightarrow> rstrip (c # s) = c # rstrip s"
proof -
  assume c: "\<not> isspace c"
  have "dropWhile isspace (rev s @ [c]) = dropWhile isspace (rev s) @ [c]"
    using c by (simp add: dropWhile_append)
  then show ?thesis by (simp add: rstrip_def)
qed

lemma strip_nl_both: "strip (nl @ s @ nl) = strip s"
proof -
  have "lstrip (nl @ s @ nl) = lstrip (s @ nl)"
    by (simp add: nl_def lstrip_space isspace_nl)
  moreover have "rstrip (lstrip (s @ nl)) = rstrip (lstrip s)"
  proof (cases "\<forall>x\<in>set s. isspace x")
    case True
    then have "lstrip (s @ nl) = []" "lstrip s = []"
      by (simp_all add: lstrip_def nl_def dropWhile_append isspace_nl)
    then show ?thesis by simp
  next
    case False
    then have "lstrip (s @ nl) = lstrip s @ nl"
      by (auto simp add: lstrip_def dropWhile_append)
    then show ?thesis by (simp add: nl_def rstrip_space isspace_nl)
  qed
  ultimately show ?thesis by (simp add: strip_def)
qed

text \<open>A response in a json fence is cleaned to its stripped body.\<close>

lemma clean_response_json_fence:
  "clean_response (''```json'' @ nl @ body @ nl @ ''```'') = strip body"
proof -
  let ?s = "''```json'' @ nl @ body @ nl @ ''```''"
  have l: "lstrip ?s = ?s"
    by (simp add: lstrip_nonspace not_isspace_tick)
  have "?s = (''```json'' @ nl @ body @ nl @ ''``'') @ [CHR 0x60]" by simp
  then have "rstrip ?s = ?s"
    by (simp only: rstrip_nonspace [OF not_isspace_tick])
  with l have c1: "strip ?s = ?s" by (simp add: strip_def)
  have p: "prefix ''```json'' ?s" by simp
  have d: "drop 7 ?s = nl @ body @ nl @ ''```''" by simp
  have "nl @ body @ nl @ ''```'' = (nl @ body @ nl) @ ''```''" by simp
  then have sfx: "suffix ''```'' (nl @ body @ nl @ ''```'')"
    by (rule suffixI)
  have t: "take (length (nl @ body @ nl @ ''```'') - 3) (nl @ body @ nl @ ''```'') = nl @ body @ nl"
    by simp
  show ?thesis
    unfolding clean_response_def Let_def c1
    using p sfx by (simp only: if_True d t strip_nl_both)
qed

text \<open>A response in a bare fence keeps the opening fence.\<close>

lemma clean_response_bare_fence:
  "clean_response (''```'' @ nl @ body @ nl @ ''```'') = ''```'' @ rstrip (nl @ body @ nl)"
proof -
  let ?s = "''```'' @ nl @ body @ nl @ ''```''"
  have l: "lstrip ?s = ?s"
    by (simp add: lstrip_nonspace not_isspace_tick)
  have "?s = (''```'' @ nl @ body @ nl @ ''``'') @ [CHR 0x60]" by simp
  then have "rstrip ?s = ?s"
    by (simp only: rstrip_nonspace [OF not_isspace_tick])
  with l have c1: "strip ?s = ?s" by (simp add: strip_def)
  have p: "\<not> prefix ''```json'' ?s" by (simp add: nl_def)
  have "?s = (''```'' @ nl @ body @ nl) @ ''```''" by simp
  then have sfx: "suffix ''```'' ?s"
    by (rule suffixI)
  have t: "take (length ?s - 3) ?s = ''```'' @ nl @ body @ nl"
    by simp
  have "strip (''```'' @ nl @ body @ nl) = rstrip (''```'' @ nl @ body @ nl)"
    by (simp add: strip_def lstrip_nonspace not_isspace_tick)
  also have "\<dots> = ''```'' @ rstrip (nl @ body @ nl)"
    by (simp add: rstrip_Cons_nonspace not_isspace_tick)
  finally have st: "strip (''```'' @ nl @ body @ nl) = ''```'' @ rstrip (nl @ body @ nl)" .
  show ?thesis
    unfolding clean_response_def Let_def c1
    using p sfx by (simp only: if_True if_False t st)
qed

lemma clean_fenced:
  "clean_response bare_fenced = bare_cleaned"
  "clean_response json_fenced = empty_selection"
  by (simp_all add: strip_defs bare_fenced_def bare_cleaned_def json_fenced_def
      empty_selection_def)

lemma demo_loads_bare:
  "demo_loads bare_cleaned = Inl (JSONDecodeError ''Expecting value'')"
  by (simp add: demo_loads_def bare_cleaned_def nl_def empty_selection_def demo_selection_def
      malformed_selection_def)

lemma demo_parse_empty:
  "parse_selection (JObject [(''reasoning'', JString ''nothing to do''), (''tool_calls'', JArray [])])
     = Inr (JString ''nothing to do'', [])"
  by (simp add: parse_selection_def bind_exn_Inr)

text \<open>
  C3 does not hold for a fence without language tag. The response \<open>bare_fenced\<close> is the
  JSON object \<open>empty_selection\<close> between a bare opening fence and a closing fence. The
  cleaning removes the closing fence only, so the text handed to \<open>json.loads\<close> still
  begins with the fence and the extraction gives the parse failure; the object alone,
  and the object in a \<open>json\<close> fence, give the rationale of the object. By
  \<open>clean_response_bare_fence\<close> the opening fence is kept whatever the body is.
\<close>

theorem bare_fence_is_not_stripped:
  "clean_response bare_fenced = ''```'' @ nl @ empty_selection
   \<and> extract_intent idle_env (Inr bare_fenced) = (JString ''Failed to parse tool selection'', [])
   \<and> extract_intent idle_env (Inr empty_selection) = (JString ''nothing to do'', [])
   \<and> extract_intent idle_env (Inr json_fenced) = (JString ''nothing to do'', [])"
proof -
  have 1: "clean_response bare_fenced = ''```'' @ nl @ empty_selection"
    by (simp only: clean_fenced bare_cleaned_def)
  have 2: "extract_intent idle_env (Inr bare_fenced) = (JString ''Failed to parse tool selection'', [])"
    by (simp add: extract_intent_def idle_env_def demo_env_fields clean_fenced demo_loads_bare
        parse_failure_def)
  have 3: "extract_intent idle_env (Inr empty_selection) = (JString ''nothing to do'', [])"
    by (simp add: extract_intent_def idle_env_def demo_env_fields clean_demo_texts
        demo_loads_texts demo_parse_empty)
  have 4: "extract_intent idle_env (Inr json_fenced) = (JString ''nothing to do'', [])"
    by (simp add: extract_intent_def idle_env_def demo_env_fields clean_fenced
        demo_loads_texts demo_parse_empty)
  from 1 2 3 4 show ?thesis by (intro conjI)
qed

section \<open>Sequential dispatch\<close>

lemma call_tool_on_connector_trace:
  "snd (call_tool_on_connector E mgr (tc_connector_name tc) (tc_tool_name tc) (tc_arguments tc) tr)
     = tr @ posted mgr tc"
  by (simp add: call_tool_on_connector_def call_tool_def posted_def Let_def
      split: option.split sum.split)

lemma execute_one_outcome:
  "fst (execute_one E mgr tc tr) =
     (case fst (call_tool_on_connector E mgr (tc_connector_name tc) (tc_tool_name tc)
                  (tc_arguments tc) tr) of
        Inr r \<Rightarrow> \<lparr>out_tool_call = tc, out_success = (error r = None), out_result = Some r,
                  out_error = error r\<rparr>
      | Inl e \<Rightarrow> \<lparr>out_tool_call = tc, out_success = False, out_result = None,
                  out_error = Some (str_exn E e)\<rparr>)"
  by (simp add: execute_one_def split: prod.split sum.split)

lemma execute_one_trace: "snd (execute_one E mgr tc tr) = tr @ posted mgr tc"
proof -
  have "snd (execute_one E mgr tc tr) =
          snd (call_tool_on_connector E mgr (tc_connector_name tc) (tc_tool_name tc)
                 (tc_arguments tc) tr)"
    by (simp add: execute_one_def split: prod.split sum.split)
  then show ?thesis by (simp only: call_tool_on_connector_trace)
qed

lemma execute_tool_calls_trace:
  "snd (execute_tool_calls E mgr calls tr) = tr @ concat (map (posted mgr) calls)"
proof (induction calls arbitrary: tr)
  case Nil
  show ?case by simp
next
  case (Cons c cs)
  have "snd (execute_tool_calls E mgr (c # cs) tr) =
          snd (execute_tool_calls E mgr cs (snd (execute_one E mgr c tr)))"
    by (simp add: split_def Let_def)
  then show ?case by (simp add: Cons.IH execute_one_trace)
qed

lemma execute_tool_calls_nth:
  "i < length calls \<Longrightarrow>
   fst (execute_tool_calls E mgr calls tr) ! i =
     fst (execute_one E mgr (calls ! i) (tr @ concat (map (posted mgr) (take i calls))))"
proof (induction calls arbitrary: i tr)
  case Nil
  then show ?case by simp
next
  case (Cons c cs)
  show ?case
  proof (cases i)
    case 0
    then show ?thesis by (simp add: split_def Let_def)
  next
    case (Suc j)
    with Cons.prems have j: "j < length cs" by simp
    have "fst (execute_tool_calls E mgr (c # cs) tr) ! i =
            fst (execute_tool_calls E mgr cs (snd (execute_one E mgr c tr))) ! j"
      using Suc by (simp add: split_def Let_def)
    also have "\<dots> = fst (execute_one E mgr (cs ! j)
                      (snd (execute_one E mgr c tr) @ concat (map (posted mgr) (take j cs))))"
      by (rule Cons.IH [OF j])
    finally show ?thesis using Suc by (simp add: execute_one_trace)
  qed
qed

text \<open>
  C1. The executor returns one outcome per call, in the order of the calls, and the
  outcome at index \<open>i\<close> carries call \<open>i\<close>. Every call is dispatched, one after the other:
  the final trace is the old trace followed, in the order of the list, by the one request
  of each call whose provider is registered with an open session; the outcome at index \<open>i\<close>
  is what \<open>call_tool_on_connector\<close> gives for call \<open>i\<close> on the trace the calls before it
  left, a result becoming an outcome with that result and an exception an outcome with
  \<open>success = False\<close> and the text of the exception. This holds at every index, so also
  after a call that failed. Running \<open>pre @ c # post\<close> is running \<open>pre\<close>, then \<open>c\<close> on
  the trace \<open>pre\<close> left, then \<open>post\<close> on the trace \<open>c\<close> left.
\<close>

theorem execute_tool_calls_one_outcome_per_call:
  "map out_tool_call (fst (execute_tool_calls E mgr calls tr)) = calls
   \<and> length (fst (execute_tool_calls E mgr calls tr)) = length calls
   \<and> snd (execute_tool_calls E mgr calls tr) = tr @ concat (map (posted mgr) calls)
   \<and> (\<forall>i<length calls.
        fst (execute_tool_calls E mgr calls tr) ! i =
          (case fst (call_tool_on_connector E mgr (tc_connector_name (calls ! i))
                       (tc_tool_name (calls ! i)) (tc_arguments (calls ! i))
                       (tr @ concat (map (posted mgr) (take i calls)))) of
             Inr r \<Rightarrow> \<lparr>out_tool_call = calls ! i, out_success = (error r = None),
                       out_result = Some r, out_error = error r\<rparr>
           | Inl e \<Rightarrow> \<lparr>out_tool_call = calls ! i, out_success = False, out_result = None,
                       out_error = Some (str_exn E e)\<rparr>))
   \<and> execute_tool_calls E mgr (pre @ c # post) tr =
       (let (rs1, tr1) = execute_tool_calls E mgr pre tr;
            (r, tr2) = execute_one E mgr c tr1;
            (rs2, tr3) = execute_tool_calls E mgr post tr2
        in (rs1 @ r # rs2, tr3))"
proof -
  have a: "map out_tool_call (fst (execute_tool_calls E mgr calls tr)) = calls"
    by (rule execute_tool_calls_calls)
  have "length (map out_tool_call (fst (execute_tool_calls E mgr calls tr))) = length calls"
    by (simp only: a)
  then have b: "length (fst (execute_tool_calls E mgr calls tr)) = length calls"
    by simp
  have t: "snd (execute_tool_calls E mgr calls tr) = tr @ concat (map (posted mgr) calls)"
    by (rule execute_tool_calls_trace)
  have n: "\<forall>i<length calls.
        fst (execute_tool_calls E mgr calls tr) ! i =
          (case fst (call_tool_on_connector E mgr (tc_connector_name (calls ! i))
                       (tc_tool_name (calls ! i)) (tc_arguments (calls ! i))
                       (tr @ concat (map (posted mgr) (take i calls)))) of
             Inr r \<Rightarrow> \<lparr>out_tool_call = calls ! i, out_success = (error r = None),
                       out_result = Some r, out_error = error r\<rparr>
           | Inl e \<Rightarrow> \<lparr>out_tool_call = calls ! i, out_success = False, out_result = None,
                       out_error = Some (str_exn E e)\<rparr>)"
    by (intro allI impI) (simp only: execute_tool_calls_nth execute_one_outcome)
  have c: "execute_tool_calls E mgr (pre @ c # post) tr =
       (let (rs1, tr1) = execute_tool_calls E mgr pre tr;
            (r, tr2) = execute_one E mgr c tr1;
            (rs2, tr3) = execute_tool_calls E mgr post tr2
        in (rs1 @ r # rs2, tr3))"
    by (simp add: execute_tool_calls_append split_def Let_def)
  from a b t n c show ?thesis by (intro conjI)
qed

lemma demo_posted:
  "posted demo_mgr demo_call1 = [demo_dispatch1]" "posted demo_mgr demo_call2 = []"
  by (simp_all add: posted_def demo_mgr_def demo_client_def demo_call1_def demo_call2_def
      demo_dispatch1_def)

lemma demo_connector_call1:
  "call_tool_on_connector (demo_env reply) demo_mgr (JString ''wf'') (JString ''start_workflow'')
     (JObject [(''title'', JString ''Demo'')]) tr = (Inr demo_payload, tr @ [demo_dispatch1])"
  by (simp add: dispatch_defs demo_env_fields demo_post_def demo_mgr_def demo_client_def
      demo_payload_def demo_dispatch1_def call_request_def list_request_def)

lemma demo_connector_call2:
  "call_tool_on_connector E demo_mgr (JString ''ghost'') tool_name arguments tr =
     (Inl (ValueError (''Connector '' @ [CHR 0x27] @ ''ghost'' @ [CHR 0x27] @ '' not found'')), tr)"
  by (simp add: call_tool_on_connector_def not_found_def demo_mgr_def)


text \<open>
  Three calls on \<open>demo_mgr\<close>, the second to the unregistered provider \<open>ghost\<close>: it
  fails, the third call is dispatched after it, and the trace holds the two requests.
\<close>

theorem execute_tool_calls_one_outcome_per_call_witness:
  "snd (execute_tool_calls busy_env demo_mgr [demo_call1, demo_call2, demo_call1] []) =
     [demo_dispatch1, demo_dispatch1]
   \<and> map out_tool_call (fst (execute_tool_calls busy_env demo_mgr
        [demo_call1, demo_call2, demo_call1] [])) = [demo_call1, demo_call2, demo_call1]
   \<and> 0 < length [demo_call1, demo_call2, demo_call1]
   \<and> fst (execute_tool_calls busy_env demo_mgr [demo_call1, demo_call2, demo_call1] []) ! 0 =
       demo_outcome1
   \<and> 1 < length [demo_call1, demo_call2, demo_call1]
   \<and> fst (execute_tool_calls busy_env demo_mgr [demo_call1, demo_call2, demo_call1] []) ! 1 =
       demo_outcome2
   \<and> 2 < length [demo_call1, demo_call2, demo_call1]
   \<and> fst (execute_tool_calls busy_env demo_mgr [demo_call1, demo_call2, demo_call1] []) ! 2 =
       demo_outcome1
   \<and> out_success demo_outcome1 \<and> \<not> out_success demo_outcome2"
proof -
  let ?cs = "[demo_call1, demo_call2, demo_call1]"
  note th = execute_tool_calls_one_outcome_per_call [of busy_env demo_mgr ?cs "[]" "[]" demo_call1 "[]"]
  note m = th [THEN conjunct1]
  note t0 = th [THEN conjunct2, THEN conjunct2, THEN conjunct1]
  note n = th [THEN conjunct2, THEN conjunct2, THEN conjunct2, THEN conjunct1, rule_format]
  have names: "tc_connector_name demo_call1 = JString ''wf''"
    "tc_tool_name demo_call1 = JString ''start_workflow''"
    "tc_arguments demo_call1 = JObject [(''title'', JString ''Demo'')]"
    "tc_connector_name demo_call2 = JString ''ghost''"
    by (simp_all add: demo_call1_def demo_call2_def)
  have t: "snd (execute_tool_calls busy_env demo_mgr ?cs []) = [demo_dispatch1, demo_dispatch1]"
    by (rule trans [OF t0]) (simp add: demo_posted)
  have l: "0 < length ?cs" "1 < length ?cs" "2 < length ?cs" by simp_all
  have o0: "fst (execute_tool_calls busy_env demo_mgr ?cs []) ! 0 = demo_outcome1"
    by (rule trans [OF n [OF l(1)]])
       (simp add: names busy_env_def demo_connector_call1 demo_outcome1_def demo_payload_def)
  have o1: "fst (execute_tool_calls busy_env demo_mgr ?cs []) ! 1 = demo_outcome2"
    by (rule trans [OF n [OF l(2)]])
       (simp add: names demo_posted demo_connector_call2 demo_outcome2_def)
  have o2: "fst (execute_tool_calls busy_env demo_mgr ?cs []) ! 2 = demo_outcome1"
    by (rule trans [OF n [OF l(3)]])
       (simp add: names demo_posted busy_env_def demo_connector_call1 demo_outcome1_def
        demo_payload_def)
  have s: "out_success demo_outcome1" "\<not> out_success demo_outcome2"
    by (simp_all add: demo_outcome1_def demo_outcome2_def)
  from t m l o0 o1 o2 s show ?thesis by (intro conjI)
qed

section \<open>Success of every result\<close>

lemma generate_summary_executed:
  "\<exists>s tr3. generate_summary E b q reasoning (fst (execute_tool_calls E mgr calls tr1)) tr2 =
             (Inr s, tr3)"
proof -
  obtain ls where "result_lines E 0 (fst (execute_tool_calls E mgr calls tr1)) = Inr ls"
    using result_lines_executed [of E 0 E mgr calls tr1] by (elim exE)
  then have p: "create_summary_prompt E q reasoning (fst (execute_tool_calls E mgr calls tr1)) =
                  Inr (summary_text E q reasoning ls)"
    by (simp add: create_summary_prompt_def bind_exn_Inr)
  obtain res tr3 where c: "complete E b 1000 (summary_text E q reasoning ls) tr2 = (res, tr3)"
    by (cases "complete E b 1000 (summary_text E q reasoning ls) tr2")
  show ?thesis
    using p c by (cases res) (simp_all add: generate_summary_def)
qed

lemma process_request_returns:
  assumes sel: "select_tools E b mgr q tr = (Inr (reasoning, calls), tr1)"
  shows "\<exists>r'. fst (process_request E b mgr q tr) = Inr r' \<and> res_success r'
              \<and> res_reasoning r' = reasoning \<and> res_tool_calls r' = calls
              \<and> res_results r' = fst (execute_tool_calls E mgr calls tr1)"
proof (cases "calls = []")
  case True
  with sel show ?thesis by (simp add: process_request_def)
next
  case False
  obtain results tr2 where ex: "execute_tool_calls E mgr calls tr1 = (results, tr2)"
    by (cases "execute_tool_calls E mgr calls tr1")
  obtain s tr3 where "generate_summary E b q reasoning
                        (fst (execute_tool_calls E mgr calls tr1)) tr2 = (Inr s, tr3)"
    using generate_summary_executed [of E b q reasoning mgr calls tr1 tr2] by (elim exE)
  with ex have gs: "generate_summary E b q reasoning results tr2 = (Inr s, tr3)" by simp
  from sel False ex gs show ?thesis by (simp add: process_request_def)
qed

text \<open>
  C2, as the code has it. Every result \<open>process_request\<close> returns has \<open>success = True\<close>.
  Once the selection returns a rationale and a list of calls, \<open>process_request\<close> returns
  a result, with \<open>success = True\<close>, that rationale, those calls and the outcomes of the
  executor, whether the calls succeeded or failed. When the reasoning call of the
  selection raises, or \<open>json.loads\<close> rejects the response, the result still has
  \<open>success = True\<close>, with the text of the handler as rationale, no call and no outcome.
\<close>

theorem process_request_always_succeeded:
  "(fst (process_request E b mgr q tr) = Inr r \<longrightarrow> res_success r)
   \<and> (select_tools E b mgr q tr = (Inr (reasoning, calls), tr0) \<longrightarrow>
        (\<exists>r'. fst (process_request E b mgr q tr) = Inr r' \<and> res_success r'
              \<and> res_reasoning r' = reasoning \<and> res_tool_calls r' = calls
              \<and> res_results r' = fst (execute_tool_calls E mgr calls tr0)))
   \<and> (get_available_tools E mgr tr = (Inr tools, tr1)
        \<and> complete E b 2000 (create_tool_selection_prompt q tools) tr1 = (Inl e, tr2) \<longrightarrow>
        process_request E b mgr q tr =
          (Inr \<lparr>res_success = True,
                res_reasoning = JString (''Error in tool selection: '' @ str_exn E e),
                res_tool_calls = [], res_results = [],
                res_summary = ''No tools were needed for this request.''\<rparr>, tr2))
   \<and> (get_available_tools E mgr tr = (Inr tools, tr1)
        \<and> complete E b 2000 (create_tool_selection_prompt q tools) tr1 = (Inr content0, tr2)
        \<and> json_loads E (clean_response content0) = Inl (JSONDecodeError m) \<longrightarrow>
        process_request E b mgr q tr =
          (Inr \<lparr>res_success = True,
                res_reasoning = JString ''Failed to parse tool selection'',
                res_tool_calls = [], res_results = [],
                res_summary = ''No tools were needed for this request.''\<rparr>, tr2))"
proof (intro conjI impI)
  assume "fst (process_request E b mgr q tr) = Inr r"
  then show "res_success r" by (rule process_request_success)
next
  assume "select_tools E b mgr q tr = (Inr (reasoning, calls), tr0)"
  then show "\<exists>r'. fst (process_request E b mgr q tr) = Inr r' \<and> res_success r'
              \<and> res_reasoning r' = reasoning \<and> res_tool_calls r' = calls
              \<and> res_results r' = fst (execute_tool_calls E mgr calls tr0)"
    by (rule process_request_returns)
next
  assume a: "get_available_tools E mgr tr = (Inr tools, tr1)
        \<and> complete E b 2000 (create_tool_selection_prompt q tools) tr1 = (Inl e, tr2)"
  have "select_tools E b mgr q tr =
          (Inr (JString (''Error in tool selection: '' @ str_exn E e), []), tr2)"
    using a by (simp add: select_tools_def extract_intent_def selection_error_def)
  then show "process_request E b mgr q tr =
          (Inr \<lparr>res_success = True,
                res_reasoning = JString (''Error in tool selection: '' @ str_exn E e),
                res_tool_calls = [], res_results = [],
                res_summary = ''No tools were needed for this request.''\<rparr>, tr2)"
    by (simp add: process_request_def no_tools_needed_def)
next
  assume a: "get_available_tools E mgr tr = (Inr tools, tr1)
        \<and> complete E b 2000 (create_tool_selection_prompt q tools) tr1 = (Inr content0, tr2)
        \<and> json_loads E (clean_response content0) = Inl (JSONDecodeError m)"
  have ex: "extract_intent E (Inr content0) = (JString ''Failed to parse tool selection'', [])"
    using a by (simp add: extract_intent_def parse_failure_def)
  have "select_tools E b mgr q tr = (Inr (JString ''Failed to parse tool selection'', []), tr2)"
    using a ex by (simp add: select_tools_def)
  then show "process_request E b mgr q tr =
          (Inr \<lparr>res_success = True,
                res_reasoning = JString ''Failed to parse tool selection'',
                res_tool_calls = [], res_results = [],
                res_summary = ''No tools were needed for this request.''\<rparr>, tr2)"
    by (simp add: process_request_def no_tools_needed_def)
qed

lemma demo_select_done:
  "select_tools done_env Gemini demo_mgr ''hello'' [] =
     (Inr (JString ''two steps needed'', [demo_call1, demo_call2]), demo_selected)"
  by (simp add: select_tools_def demo_catalog complete_def extract_intent_def
      done_env_def demo_env_fields scripted_def demo_listed_quiet clean_demo_texts
      demo_loads_texts demo_parse demo_selected_def)

lemma demo_execute_done:
  "execute_tool_calls done_env demo_mgr [demo_call1, demo_call2] tr =
     ([demo_outcome1, demo_outcome2], tr @ [demo_dispatch1])"
  by (simp add: done_env_def demo_dispatch_call1 demo_dispatch_call2)

text \<open>
  The run of \<open>done_env\<close>, whose second call fails, the run of \<open>failing_env\<close>, whose
  reasoning call raises, and the run of \<open>prose_env\<close>, whose response is not JSON.
\<close>

theorem process_request_always_succeeded_witness:
  "select_tools done_env Gemini demo_mgr ''hello'' [] =
     (Inr (JString ''two steps needed'', [demo_call1, demo_call2]), demo_selected)
   \<and> (\<exists>r'. fst (process_request done_env Gemini demo_mgr ''hello'' []) = Inr r'
            \<and> res_success r' \<and> res_reasoning r' = JString ''two steps needed''
            \<and> res_tool_calls r' = [demo_call1, demo_call2]
            \<and> res_results r' = [demo_outcome1, demo_outcome2])
   \<and> \<not> out_success demo_outcome2
   \<and> get_available_tools failing_env demo_mgr [] = (Inr [], demo_listed)
   \<and> complete failing_env Gemini 2000 (create_tool_selection_prompt ''hello'' []) demo_listed =
       (Inl (LibraryError ''quota exceeded''),
        demo_listed @ [GenerateContent (create_tool_selection_prompt ''hello'' [])])
   \<and> fst (process_request failing_env Gemini demo_mgr ''hello'' []) =
       Inr \<lparr>res_success = True,
            res_reasoning = JString ''Error in tool selection: quota exceeded'',
            res_tool_calls = [], res_results = [],
            res_summary = ''No tools were needed for this request.''\<rparr>
   \<and> res_success \<lparr>res_success = True,
            res_reasoning = JString ''Error in tool selection: quota exceeded'',
            res_tool_calls = [], res_results = [],
            res_summary = ''No tools were needed for this request.''\<rparr>
   \<and> get_available_tools prose_env demo_mgr [] = (Inr [], demo_listed)
   \<and> complete prose_env Gemini 2000 (create_tool_selection_prompt ''hello'' []) demo_listed =
       (Inr prose_reply, demo_listed @ [GenerateContent (create_tool_selection_prompt ''hello'' [])])
   \<and> json_loads prose_env (clean_response prose_reply) = Inl (JSONDecodeError ''Expecting value'')
   \<and> process_request prose_env Gemini demo_mgr ''hello'' [] =
       (Inr \<lparr>res_success = True, res_reasoning = JString ''Failed to parse tool selection'',
             res_tool_calls = [], res_results = [],
             res_summary = ''No tools were needed for this request.''\<rparr>,
        demo_listed @ [GenerateContent (create_tool_selection_prompt ''hello'' [])])"
proof -
  let ?T = "demo_listed @ [GenerateContent (create_tool_selection_prompt ''hello'' [])]"
  let ?R = "\<lparr>res_success = True,
            res_reasoning = JString ''Error in tool selection: quota exceeded'',
            res_tool_calls = [], res_results = [],
            res_summary = ''No tools were needed for this request.''\<rparr>"
  let ?P = "\<lparr>res_success = True, res_reasoning = JString ''Failed to parse tool selection'',
             res_tool_calls = [], res_results = [],
             res_summary = ''No tools were needed for this request.''\<rparr>"
  have d: "\<exists>r'. fst (process_request done_env Gemini demo_mgr ''hello'' []) = Inr r'
            \<and> res_success r' \<and> res_reasoning r' = JString ''two steps needed''
            \<and> res_tool_calls r' = [demo_call1, demo_call2]
            \<and> res_results r' = [demo_outcome1, demo_outcome2]"
    using process_request_always_succeeded [of done_env Gemini demo_mgr "''hello''" "[]" ?R
                    "JString ''two steps needed''" "[demo_call1, demo_call2]" demo_selected,
                 THEN conjunct2, THEN conjunct1, rule_format, OF demo_select_done]
    by (simp only: demo_execute_done fst_conv)
  have o: "\<not> out_success demo_outcome2"
    by (simp add: demo_outcome2_def)
  have h1: "get_available_tools failing_env demo_mgr [] = (Inr [], demo_listed)"
    by (simp add: failing_env_def demo_catalog)
  have h2: "complete failing_env Gemini 2000 (create_tool_selection_prompt ''hello'' []) demo_listed =
       (Inl (LibraryError ''quota exceeded''), ?T)"
    by (rule demo_complete_failing)
  have p: "process_request failing_env Gemini demo_mgr ''hello'' [] = (Inr ?R, ?T)"
    using process_request_always_succeeded [of failing_env Gemini demo_mgr "''hello''" "[]" ?R "JNull" "[]" "[]" "[]"
                    demo_listed "LibraryError ''quota exceeded''" ?T] h1 h2
    by simp
  then have f: "fst (process_request failing_env Gemini demo_mgr ''hello'' []) = Inr ?R"
    by simp
  have s: "res_success ?R"
    using process_request_always_succeeded [of failing_env Gemini demo_mgr "''hello''" "[]" ?R, THEN conjunct1] f
    by (rule mp)
  have g1: "get_available_tools prose_env demo_mgr [] = (Inr [], demo_listed)"
    by (simp add: prose_env_def demo_catalog)
  have g2: "complete prose_env Gemini 2000 (create_tool_selection_prompt ''hello'' []) demo_listed =
       (Inr prose_reply, ?T)"
    by (simp add: complete_def prose_env_def demo_env_fields scripted_def demo_listed_quiet)
  have g3: "json_loads prose_env (clean_response prose_reply) = Inl (JSONDecodeError ''Expecting value'')"
    by (simp add: prose_env_def demo_env_fields clean_prose demo_loads_prose)
  have g: "process_request prose_env Gemini demo_mgr ''hello'' [] = (Inr ?P, ?T)"
    by (rule process_request_always_succeeded [THEN conjunct2, THEN conjunct2, THEN conjunct2, rule_format,
                    OF conjI [OF g1 conjI [OF g2 g3]]])
  from demo_select_done d o h1 h2 f s g1 g2 g3 g show ?thesis by (intro conjI)
qed

end
